theory Spec2Isabelle
  imports Main "HOL-Library.Sublist"
begin

section \<open>Protocol (structural subtyping) assignability: \<^verbatim>\<open>protocols.ts\<close>\<close>

text \<open>
  The three exported functions of \<^verbatim>\<open>protocols.ts\<close> are embedded here:
  \<^verbatim>\<open>canAssignClassToProtocol\<close> (with its helper \<^verbatim>\<open>canAssignClassToProtocolInternal\<close>),
  \<^verbatim>\<open>canAssignModuleToProtocol\<close> and \<^verbatim>\<open>canAssignProtocolClassToSelf\<close>.

  The module consumes the type evaluator, the type representation and the type utilities
  as collaborators whose code is not part of the module. They are parameters of the model:
  \<^item> a type \<open>'t\<close> of type objects and a type \<open>'c\<close> of type-variable contexts, both opaque;
  \<^item> a record of the pure accessors and utilities of \<^verbatim>\<open>types.ts\<close>, \<^verbatim>\<open>typeUtils.ts\<close> and
    \<^verbatim>\<open>typeVarContext.ts\<close>;
  \<^item> a record of the effectful collaborators (the methods of \<^verbatim>\<open>TypeEvaluator\<close> and
    \<^verbatim>\<open>canAssignProperty\<close>): each takes the program state and returns either a thrown
    exception or a result, together with the new state.

  The program state holds the module-level array \<^verbatim>\<open>protocolAssignmentStack\<close> and an opaque
  component \<open>'w\<close> for whatever the collaborators keep (caches, speculative state).
  An object that a collaborator may mutate through a reference it is handed (a diagnostic
  addendum, a type-variable context, a function type whose return type is inferred) is
  passed by value and handed back updated.
\<close>

subsection \<open>Declarations, symbols and class members\<close>

text \<open>
  Modelled from the spec: the declaration and symbol classes (\<^verbatim>\<open>declaration.ts\<close>,
  \<^verbatim>\<open>symbol.ts\<close>) are missing. A member symbol has a class-member flag, a class-variable
  flag, an ignored-for-match flag and one or more declarations, each typed as
  Variable/Function/etc. and carrying its own final and type annotations.
  \<^verbatim>\<open>isFinal\<close> is optional in the source and only ever read through \<^verbatim>\<open>!\<close> or \<^verbatim>\<open>!!\<close>, so an
  absent value is \<open>False\<close>. \<open>symbolId\<close> stands for the identity of the symbol object.
\<close>

datatype DeclarationType = Intrinsic | Variable | Parameter | Function | Class | Alias

record Declaration =
  declType :: DeclarationType
  isFinal :: bool
  hasTypeInfo :: bool

record Symbol =
  symbolId :: nat
  isClassMember :: bool
  isClassVar :: bool
  isIgnoredForProtocolMatch :: bool
  getDeclarations :: "Declaration list"

definition getTypedDeclarations :: "Symbol \<Rightarrow> Declaration list" where
  "getTypedDeclarations symb = filter hasTypeInfo (getDeclarations symb)"

text \<open>The result of \<^verbatim>\<open>lookUpClassMember\<close>: the symbol found and the class that declares it.\<close>

record 't ClassMember =
  symbol :: Symbol
  classType :: 't

subsection \<open>Diagnostics\<close>

text \<open>
  Modelled from the spec: the localized messages (\<^verbatim>\<open>Localizer.DiagnosticAddendum\<close>) are
  missing. Each message used by the module is a constructor carrying the member name it
  is formatted with; \<open>otherMessage\<close> stands for the messages of the collaborators.
\<close>

datatype message =
    protocolMemberMissing string
  | memberTypeMismatch string
  | memberIsInvariant string
  | memberIsFinalInProtocol string
  | memberIsNotFinalInProtocol string
  | protocolMemberClassVar string
  | otherMessage string

text \<open>
  Modelled from the spec: the class \<^verbatim>\<open>DiagnosticAddendum\<close> (\<^verbatim>\<open>diagnostic.ts\<close>) is missing.
  It is a tree of messages: \<^verbatim>\<open>addMessage\<close> appends a message to a node,
  \<^verbatim>\<open>createAddendum\<close> creates an empty child node, appends it to the node's children and
  returns it. The sink is optional everywhere (\<^verbatim>\<open>diag?.\<close>), hence the \<open>option\<close>.

  In the model \<open>createAddendum\<close> yields the fresh child and \<open>addAddendum\<close> attaches the
  child, with the contents it ends up with, at the position where the source created it.
  Nothing else is appended to the parent's children in between, so the resulting tree is
  the one the source builds.
\<close>

datatype DiagnosticAddendum =
  DiagnosticAddendum (messages: "message list") (childAddenda: "DiagnosticAddendum list")

definition addMessage :: "message \<Rightarrow> DiagnosticAddendum option \<Rightarrow> DiagnosticAddendum option" where
  "addMessage m d = map_option (\<lambda>a. DiagnosticAddendum (messages a @ [m]) (childAddenda a)) d"

definition createAddendum :: "DiagnosticAddendum option \<Rightarrow> DiagnosticAddendum option" where
  "createAddendum d = map_option (\<lambda>_. DiagnosticAddendum [] []) d"

definition addAddendum :: "DiagnosticAddendum option \<Rightarrow> DiagnosticAddendum option \<Rightarrow> DiagnosticAddendum option" where
  "addAddendum parent child =
     (case parent of
        None \<Rightarrow> None
      | Some p \<Rightarrow>
          (case child of
             None \<Rightarrow> Some p
           | Some c \<Rightarrow> Some (DiagnosticAddendum (messages p) (childAddenda p @ [c]))))"

subsection \<open>Assignability flags\<close>

text \<open>
  Modelled from the spec: the bit-flag enum \<^verbatim>\<open>CanAssignFlags\<close> (\<^verbatim>\<open>typeUtils.ts\<close>) is
  missing. A flags value is the set of the flags that are set: \<^verbatim>\<open>Default\<close> is the empty
  set, \<^verbatim>\<open>(flags & F) !== 0\<close> is membership of \<open>F\<close> and \<^verbatim>\<open>flags | F\<close> is insertion of \<open>F\<close>.
\<close>

datatype CanAssignFlag = EnforceInvariance | RetainLiteralsForTypeVar | OtherFlag nat

type_synonym CanAssignFlags = "CanAssignFlag set"

definition Default :: CanAssignFlags where
  "Default = {}"

subsection \<open>Program state, exceptions and the evaluation monad\<close>

datatype error = AssertionFailed | Thrown string

record 't ProtocolAssignmentStackEntry =
  entrySrcType :: 't
  entryDestType :: 't

record ('t, 'w) state =
  protocolAssignmentStack :: "'t ProtocolAssignmentStackEntry list"
  world :: 'w

type_synonym ('t, 'w, 'a) eval = "('t, 'w) state \<Rightarrow> (error + 'a) \<times> ('t, 'w) state"

definition returnM :: "'a \<Rightarrow> ('t, 'w, 'a) eval" where
  "returnM x = (\<lambda>s. (Inr x, s))"

definition throwM :: "error \<Rightarrow> ('t, 'w, 'a) eval" where
  "throwM e = (\<lambda>s. (Inl e, s))"

definition bindM :: "('t, 'w, 'a) eval \<Rightarrow> ('a \<Rightarrow> ('t, 'w, 'b) eval) \<Rightarrow> ('t, 'w, 'b) eval" where
  "bindM m f = (\<lambda>s. case m s of (Inl e, s') \<Rightarrow> (Inl e, s') | (Inr x, s') \<Rightarrow> f x s')"

text \<open>
  \<^verbatim>\<open>xs.forEach(callback)\<close> over an array or an insertion-ordered \<^verbatim>\<open>Map\<close>: the callback
  runs on the elements in order, on the locals it captures; an exception ends the loop.
\<close>

fun forEachM :: "('a \<Rightarrow> 'b \<Rightarrow> ('t, 'w, 'b) eval) \<Rightarrow> 'a list \<Rightarrow> 'b \<Rightarrow> ('t, 'w, 'b) eval" where
  "forEachM f [] w = returnM w"
| "forEachM f (x # xs) w = bindM (f x w) (forEachM f xs)"

text \<open>\<^verbatim>\<open>assert(cond)\<close> of \<^verbatim>\<open>common/debug\<close> throws when the condition is false.\<close>

definition assertM :: "bool \<Rightarrow> ('t, 'w, unit) eval" where
  "assertM b = (if b then returnM () else throwM AssertionFailed)"

subsection \<open>The collaborators\<close>

text \<open>
  The accessors of a type object and the pure helpers the module imports from
  \<^verbatim>\<open>types.ts\<close>, \<^verbatim>\<open>typeUtils.ts\<close> and \<^verbatim>\<open>typeVarContext.ts\<close>. \<open>mro\<close>, \<open>classFields\<close> (\<^verbatim>\<open>details.fields\<close>),
  \<open>effectiveMetaclass\<close>, \<open>typeParameters\<close> and \<open>baseClasses\<close> read \<^verbatim>\<open>t.details\<close>;
  \<open>typeArguments\<close> reads \<^verbatim>\<open>t.typeArguments\<close>; \<open>moduleFields\<close> reads the \<^verbatim>\<open>fields\<close> of a
  \<^verbatim>\<open>ModuleType\<close>, which the module only reads with \<^verbatim>\<open>get\<close>. The member table of a
  class is an insertion-ordered \<^verbatim>\<open>Map\<close> that the module iterates: an association list in
  insertion order. \<open>unknownType\<close> is \<^verbatim>\<open>UnknownType.create()\<close>,
  \<open>newTypeVarContext\<close> is \<^verbatim>\<open>new TypeVarContext(scopeId)\<close>, and \<open>addSolveForScope\<close> returns
  the context that the method of that name leaves behind.
\<close>

record ('t, 'c) typeOps =
  maxTypeRecursionCount :: int
  isInstantiableClass :: "'t \<Rightarrow> bool"
  isClassInstance :: "'t \<Rightarrow> bool"
  isFunction :: "'t \<Rightarrow> bool"
  isOverloadedFunction :: "'t \<Rightarrow> bool"
  isTypeSame :: "'t \<Rightarrow> 't \<Rightarrow> bool"
  unknownType :: 't
  cloneForSpecialization :: "'t \<Rightarrow> 't list option \<Rightarrow> bool \<Rightarrow> 't"
  cloneAsInstance :: "'t \<Rightarrow> 't"
  cloneAsInstantiable :: "'t \<Rightarrow> 't"
  isTypedDictClass :: "'t \<Rightarrow> bool"
  isProtocolClass :: "'t \<Rightarrow> bool"
  isPropertyClass :: "'t \<Rightarrow> bool"
  isSameGenericClass :: "'t \<Rightarrow> 't \<Rightarrow> bool"
  isBuiltIn :: "'t \<Rightarrow> string \<Rightarrow> bool"
  mro :: "'t \<Rightarrow> 't list"
  classFields :: "'t \<Rightarrow> (string \<times> Symbol) list"
  effectiveMetaclass :: "'t \<Rightarrow> 't option"
  typeParameters :: "'t \<Rightarrow> 't list"
  typeArguments :: "'t \<Rightarrow> 't list option"
  baseClasses :: "'t \<Rightarrow> 't list"
  moduleFields :: "'t \<Rightarrow> string \<rightharpoonup> Symbol"
  applySolvedTypeVars :: "'t \<Rightarrow> 'c \<Rightarrow> 't"
  buildTypeVarContextFromSpecializedClass :: "'t \<Rightarrow> 'c"
  containsLiteralType :: "'t \<Rightarrow> bool \<Rightarrow> bool"
  getTypeVarScopeId :: "'t \<Rightarrow> string option"
  lookUpClassMember :: "'t \<Rightarrow> string \<Rightarrow> 't ClassMember option"
  partiallySpecializeType :: "'t \<Rightarrow> 't \<Rightarrow> 't option \<Rightarrow> 't"
  populateTypeVarContextForSelfType :: "'c \<Rightarrow> 't \<Rightarrow> 't \<Rightarrow> 'c"
  removeParamSpecVariadicsFromSignature :: "'t \<Rightarrow> 't"
  specializeForBaseClass :: "'t \<Rightarrow> 't \<Rightarrow> 't"
  newTypeVarContext :: "string option \<Rightarrow> 'c"
  addSolveForScope :: "'c \<Rightarrow> string option \<Rightarrow> 'c"

text \<open>
  The effectful collaborators. Arguments are in the order of the source; the
  \<^verbatim>\<open>errorNode\<close> argument of \<^verbatim>\<open>bindFunctionToClassOrObject\<close>, which the module always
  passes as \<^verbatim>\<open>undefined\<close>, is left out, and its two trailing optional arguments are \<open>None\<close>
  where the call site omits them.
  \<^item> \<open>canAssignType dest src diag ctx flags recursionCount\<close> yields the verdict, the
    addendum and the context as the call leaves them.
  \<^item> \<open>canAssignProperty dest src destClass srcClass diag ctx selfCtx recursionCount\<close>
    likewise, with both contexts.
  \<^item> \<open>verifyTypeArgumentsAssignable dest src diag ctx flags recursionCount\<close> likewise.
  \<^item> \<open>inferReturnTypeIfNecessary t\<close> yields the function type as the call leaves it.
\<close>

record ('t, 'c, 'w) TypeEvaluator =
  getTypedDictClassType :: "('t, 'w, 't option) eval"
  getDeclaredTypeOfSymbol :: "Symbol \<Rightarrow> ('t, 'w, 't option) eval"
  getEffectiveTypeOfSymbol :: "Symbol \<Rightarrow> ('t, 'w, 't) eval"
  getTypeOfMember :: "'t ClassMember \<Rightarrow> ('t, 'w, 't) eval"
  inferReturnTypeIfNecessary :: "'t \<Rightarrow> ('t, 'w, 't) eval"
  bindFunctionToClassOrObject ::
    "'t \<Rightarrow> 't \<Rightarrow> 't option \<Rightarrow> int \<Rightarrow> bool option \<Rightarrow> 't option \<Rightarrow> ('t, 'w, 't option) eval"
  getGetterTypeFromProperty :: "'t \<Rightarrow> bool \<Rightarrow> ('t, 'w, 't option) eval"
  canAssignType ::
    "'t \<Rightarrow> 't \<Rightarrow> DiagnosticAddendum option \<Rightarrow> 'c \<Rightarrow> CanAssignFlags \<Rightarrow> int
      \<Rightarrow> ('t, 'w, bool \<times> DiagnosticAddendum option \<times> 'c) eval"
  canAssignProperty ::
    "'t \<Rightarrow> 't \<Rightarrow> 't \<Rightarrow> 't \<Rightarrow> DiagnosticAddendum option \<Rightarrow> 'c \<Rightarrow> 'c option \<Rightarrow> int
      \<Rightarrow> ('t, 'w, bool \<times> DiagnosticAddendum option \<times> 'c \<times> 'c option) eval"
  verifyTypeArgumentsAssignable ::
    "'t \<Rightarrow> 't \<Rightarrow> DiagnosticAddendum option \<Rightarrow> 'c option \<Rightarrow> CanAssignFlags \<Rightarrow> int
      \<Rightarrow> ('t, 'w, bool \<times> DiagnosticAddendum option \<times> 'c option) eval"

subsection \<open>The locals of the member walk\<close>

text \<open>
  The callbacks of the two nested \<^verbatim>\<open>forEach\<close> loops assign to locals of the enclosing
  function and mutate objects it owns. These are the loop state: \<open>typesAreConsistent\<close>,
  \<open>checkedSymbolSet\<close>, the contents of \<open>genericDestTypeVarContext\<close>, and the contents of
  the addendum \<^verbatim>\<open>diag\<close> (\<open>diagAddendum\<close>); in the class comparison also the contents of
  \<open>srcClassTypeVarContext\<close> and \<open>selfTypeVarContext\<close>.
\<close>

record 'c walk =
  typesAreConsistent :: bool
  checkedSymbolSet :: "string set"
  genericDestTypeVarContext :: 'c
  diagAddendum :: "DiagnosticAddendum option"

record 'c classWalk = "'c walk" +
  srcClassTypeVarContext :: 'c
  selfTypeVarContext :: 'c

subsection \<open>\<^verbatim>\<open>canAssignClassToProtocolInternal\<close>: one protocol member\<close>

text \<open>
  Lines 168--183: the candidate's member is looked up in the metaclass first when the
  class object is compared, then in the class. Yields \<open>srcMemberInfo\<close>,
  \<open>isMemberFromMetaclass\<close> and the contents of \<open>srcClassTypeVarContext\<close>.
\<close>

definition lookUpSrcMember ::
  "('t, 'c) typeOps \<Rightarrow> 't \<Rightarrow> bool \<Rightarrow> string \<Rightarrow> 'c \<Rightarrow> 't ClassMember option \<times> bool \<times> 'c" where
  "lookUpSrcMember T srcType treatSourceAsInstantiable name srcCtx =
     (let fromMetaclass =
            (if treatSourceAsInstantiable then
               (case effectiveMetaclass T srcType of
                  None \<Rightarrow> None
                | Some metaclass \<Rightarrow>
                    if isInstantiableClass T metaclass then
                      map_option (\<lambda>info. (info, metaclass)) (lookUpClassMember T metaclass name)
                    else None)
             else None)
      in case fromMetaclass of
           Some (info, metaclass) \<Rightarrow>
             (Some info, True, addSolveForScope T srcCtx (getTypeVarScopeId T metaclass))
         | None \<Rightarrow> (lookUpClassMember T srcType name, False, srcCtx))"

text \<open>Lines 200--212: the type of the candidate's member.\<close>

definition getSrcMemberType ::
  "('t, 'c) typeOps \<Rightarrow> ('t, 'c, 'w) TypeEvaluator \<Rightarrow> 't \<Rightarrow> 't ClassMember \<Rightarrow> ('t, 'w, 't) eval" where
  "getSrcMemberType T ev srcType srcMemberInfo =
     (if isInstantiableClass T (classType srcMemberInfo) then
        bindM (getEffectiveTypeOfSymbol ev (symbol srcMemberInfo)) (\<lambda>symbolType.
        bindM (if isFunction T symbolType then inferReturnTypeIfNecessary ev symbolType
               else returnM symbolType) (\<lambda>symbolType'.
        returnM (partiallySpecializeType T symbolType' (classType srcMemberInfo) (Some srcType))))
      else returnM (unknownType T))"

text \<open>
  Lines 214--274: callables are bound to their receiver, and \<^verbatim>\<open>Self\<close> is replaced in the
  protocol's member type. Yields \<open>(destMemberType, srcMemberType)\<close>.
\<close>

definition bindMemberTypes ::
  "('t, 'c) typeOps \<Rightarrow> ('t, 'c, 'w) TypeEvaluator \<Rightarrow> 't \<Rightarrow> 'c \<Rightarrow> bool \<Rightarrow> int \<Rightarrow> bool
    \<Rightarrow> 't ClassMember \<Rightarrow> 't \<Rightarrow> 't \<Rightarrow> ('t, 'w, 't \<times> 't) eval" where
  "bindMemberTypes T ev srcType selfCtx treatSourceAsInstantiable recursionCount
       isMemberFromMetaclass srcMemberInfo destMemberType srcMemberType =
     (if isFunction T srcMemberType \<or> isOverloadedFunction T srcMemberType then
        if isMemberFromMetaclass then
          bindM (bindFunctionToClassOrObject ev srcType srcMemberType None recursionCount
                   (Some False) (Some srcType)) (\<lambda>boundSrcFunction.
          let srcMemberType' =
                (case boundSrcFunction of
                   Some f \<Rightarrow> removeParamSpecVariadicsFromSignature T f
                 | None \<Rightarrow> srcMemberType)
          in if isFunction T destMemberType \<or> isOverloadedFunction T destMemberType then
               bindM (bindFunctionToClassOrObject ev srcType destMemberType None recursionCount
                        (Some False) (Some srcType)) (\<lambda>boundDeclaredType.
               returnM
                 (case boundDeclaredType of
                    Some f \<Rightarrow> removeParamSpecVariadicsFromSignature T f
                  | None \<Rightarrow> destMemberType,
                  srcMemberType'))
             else returnM (destMemberType, srcMemberType'))
        else if isInstantiableClass T (classType srcMemberInfo) then
          let destMemberType' = applySolvedTypeVars T destMemberType selfCtx
          in bindM (bindFunctionToClassOrObject ev
                      (if treatSourceAsInstantiable then srcType else cloneAsInstance T srcType)
                      srcMemberType (Some (classType srcMemberInfo)) recursionCount None None)
               (\<lambda>boundSrcFunction.
             let srcMemberType' =
                   (case boundSrcFunction of
                      Some f \<Rightarrow> removeParamSpecVariadicsFromSignature T f
                    | None \<Rightarrow> srcMemberType)
             in if isFunction T destMemberType' \<or> isOverloadedFunction T destMemberType' then
                  bindM (bindFunctionToClassOrObject ev (cloneAsInstance T srcType) destMemberType'
                           (Some (classType srcMemberInfo)) recursionCount None None)
                    (\<lambda>boundDeclaredType.
                  returnM
                    (case boundDeclaredType of
                       Some f \<Rightarrow> removeParamSpecVariadicsFromSignature T f
                     | None \<Rightarrow> destMemberType',
                     srcMemberType'))
                else returnM (destMemberType', srcMemberType'))
        else returnM (destMemberType, srcMemberType)
      else returnM (applySolvedTypeVars T destMemberType selfCtx, srcMemberType))"

text \<open>
  Line 334: a member is compared invariantly when its primary (first) declaration is a
  variable that is not final; \<^verbatim>\<open>primaryDecl?.type\<close> is \<^verbatim>\<open>undefined\<close> when the symbol has
  no declaration.
\<close>

definition isInvariant :: "Symbol \<Rightarrow> bool" where
  "isInvariant symb =
     (case getDeclarations symb of
        [] \<Rightarrow> False
      | primaryDecl # _ \<Rightarrow> declType primaryDecl = Variable \<and> \<not> isFinal primaryDecl)"

text \<open>
  Lines 278--357: the member types are compared, a property through
  \<^verbatim>\<open>canAssignProperty\<close> or its getter type, anything else through \<^verbatim>\<open>canAssignType\<close>.
  Takes and yields the contents of \<open>subDiag\<close> and the locals.
\<close>

definition recordMismatch ::
  "message list \<Rightarrow> DiagnosticAddendum option \<Rightarrow> 'c classWalk \<Rightarrow> DiagnosticAddendum option \<times> 'c classWalk" where
  "recordMismatch ms subDiag w = (fold addMessage ms subDiag, w\<lparr>typesAreConsistent := False\<rparr>)"

definition compareMemberTypes ::
  "('t, 'c) typeOps \<Rightarrow> ('t, 'c, 'w) TypeEvaluator \<Rightarrow> 't \<Rightarrow> 't \<Rightarrow> CanAssignFlags \<Rightarrow> bool \<Rightarrow> int
    \<Rightarrow> string \<Rightarrow> Symbol \<Rightarrow> 't \<Rightarrow> 't \<Rightarrow> DiagnosticAddendum option \<Rightarrow> 'c classWalk
    \<Rightarrow> ('t, 'w, DiagnosticAddendum option \<times> 'c classWalk) eval" where
  "compareMemberTypes T ev srcType mroClass canAssignFlags treatSourceAsInstantiable recursionCount
       name symb destMemberType srcMemberType subDiag w =
     (if isClassInstance T destMemberType \<and> isPropertyClass T destMemberType then
        if isClassInstance T srcMemberType \<and> isPropertyClass T srcMemberType
           \<and> \<not> treatSourceAsInstantiable then
          bindM (canAssignProperty ev (cloneAsInstantiable T destMemberType)
                   (cloneAsInstantiable T srcMemberType) mroClass srcType (createAddendum subDiag)
                   (genericDestTypeVarContext w) (Some (selfTypeVarContext w)) recursionCount)
            (\<lambda>(ok, child, destCtx, selfCtx).
          let subDiag' = addAddendum subDiag child;
              w' = w\<lparr>genericDestTypeVarContext := destCtx,
                     selfTypeVarContext := (case selfCtx of Some c \<Rightarrow> c | None \<Rightarrow> selfTypeVarContext w)\<rparr>
          in returnM (if \<not> ok then recordMismatch [memberTypeMismatch name] subDiag' w'
                      else (subDiag', w')))
        else
          bindM (getGetterTypeFromProperty ev destMemberType True) (\<lambda>getterType.
          case getterType of
            None \<Rightarrow> returnM (recordMismatch [memberTypeMismatch name] subDiag w)
          | Some getter \<Rightarrow>
              bindM (canAssignType ev getter srcMemberType (createAddendum subDiag)
                       (genericDestTypeVarContext w) canAssignFlags recursionCount)
                (\<lambda>(ok, child, destCtx).
              let subDiag' = addAddendum subDiag child;
                  w' = w\<lparr>genericDestTypeVarContext := destCtx\<rparr>
              in returnM (if \<not> ok then recordMismatch [memberTypeMismatch name] subDiag' w'
                          else (subDiag', w'))))
      else
        bindM (canAssignType ev destMemberType srcMemberType (createAddendum subDiag)
                 (genericDestTypeVarContext w)
                 (if isInvariant symb then insert EnforceInvariance canAssignFlags else canAssignFlags)
                 recursionCount)
          (\<lambda>(ok, child, destCtx).
        let subDiag' = addAddendum subDiag child;
            w' = w\<lparr>genericDestTypeVarContext := destCtx\<rparr>
        in returnM
             (if \<not> ok then
                recordMismatch
                  (if isInvariant symb then [memberIsInvariant name, memberTypeMismatch name]
                   else [memberTypeMismatch name])
                  subDiag' w'
              else (subDiag', w'))))"

text \<open>Lines 359--381: both sides must agree on whether the member is final.\<close>

definition isFinalVariable :: "Symbol \<Rightarrow> bool" where
  "isFinalVariable symb =
     list_ex (\<lambda>decl. declType decl = Variable \<and> isFinal decl) (getTypedDeclarations symb)"

definition checkFinal ::
  "string \<Rightarrow> Symbol \<Rightarrow> Symbol \<Rightarrow> DiagnosticAddendum option \<Rightarrow> 'c classWalk
    \<Rightarrow> DiagnosticAddendum option \<times> 'c classWalk" where
  "checkFinal name symb srcSymbol subDiag w =
     (let isDestFinal = isFinalVariable symb;
          isSrcFinal = isFinalVariable srcSymbol
      in if isDestFinal \<noteq> isSrcFinal then
           recordMismatch
             [if isDestFinal then memberIsFinalInProtocol name else memberIsNotFinalInProtocol name]
             subDiag w
         else (subDiag, w))"

text \<open>
  Lines 193--381: what is done for a member whose declared type is known. \<open>subDiag\<close> is
  created at line 276 and ends up as the last child of \<^verbatim>\<open>diag\<close>.
\<close>

definition checkTypedMember ::
  "('t, 'c) typeOps \<Rightarrow> ('t, 'c, 'w) TypeEvaluator \<Rightarrow> 't \<Rightarrow> 't \<Rightarrow> CanAssignFlags \<Rightarrow> bool \<Rightarrow> int
    \<Rightarrow> 't \<Rightarrow> string \<Rightarrow> Symbol \<Rightarrow> 't ClassMember \<Rightarrow> bool \<Rightarrow> 't \<Rightarrow> 'c classWalk
    \<Rightarrow> ('t, 'w, 'c classWalk) eval" where
  "checkTypedMember T ev destType srcType canAssignFlags treatSourceAsInstantiable recursionCount
       mroClass name symb srcMemberInfo isMemberFromMetaclass declaredType w =
     (let destMemberType =
            (if \<not> isSameGenericClass T mroClass destType then
               partiallySpecializeType T declaredType mroClass None
             else declaredType)
      in bindM (getSrcMemberType T ev srcType srcMemberInfo) (\<lambda>srcMemberType.
         bindM (bindMemberTypes T ev srcType (selfTypeVarContext w) treatSourceAsInstantiable
                  recursionCount isMemberFromMetaclass srcMemberInfo destMemberType srcMemberType)
           (\<lambda>(destMemberType', srcMemberType').
         bindM (compareMemberTypes T ev srcType mroClass canAssignFlags treatSourceAsInstantiable
                  recursionCount name symb destMemberType' srcMemberType'
                  (createAddendum (diagAddendum w)) w)
           (\<lambda>(subDiag, w').
         let (subDiag', w'') = checkFinal name symb (symbol srcMemberInfo) subDiag w'
         in returnM (w''\<lparr>diagAddendum := addAddendum (diagAddendum w'') subDiag'\<rparr>)))))"

text \<open>Lines 384--389: a class variable of the protocol needs a class member.\<close>

definition checkClassVar :: "string \<Rightarrow> Symbol \<Rightarrow> Symbol \<Rightarrow> 'c classWalk \<Rightarrow> 'c classWalk" where
  "checkClassVar name symb srcSymbol w =
     (if isClassVar symb \<and> \<not> isClassMember srcSymbol then
        w\<lparr>diagAddendum := addMessage (protocolMemberClassVar name) (diagAddendum w),
          typesAreConsistent := False\<rparr>
      else w)"

text \<open>Lines 147--392: the callback of the inner loop, run on each entry of a member table.\<close>

definition checkClassMember ::
  "('t, 'c) typeOps \<Rightarrow> ('t, 'c, 'w) TypeEvaluator \<Rightarrow> 't \<Rightarrow> 't \<Rightarrow> CanAssignFlags \<Rightarrow> bool \<Rightarrow> int
    \<Rightarrow> 't \<Rightarrow> string \<times> Symbol \<Rightarrow> 'c classWalk \<Rightarrow> ('t, 'w, 'c classWalk) eval" where
  "checkClassMember T ev destType srcType canAssignFlags treatSourceAsInstantiable recursionCount
       mroClass entry w =
     (let name = fst entry; symb = snd entry
      in if isClassMember symb \<and> \<not> isIgnoredForProtocolMatch symb \<and> name \<notin> checkedSymbolSet w then
           if \<not> treatSourceAsInstantiable \<and> name = ''__class_getitem__'' then returnM w
           else if name = ''__slots__'' then returnM w
           else
             let w1 = w\<lparr>checkedSymbolSet := insert name (checkedSymbolSet w)\<rparr>;
                 (srcMemberInfo, isMemberFromMetaclass, srcCtx) =
                   lookUpSrcMember T srcType treatSourceAsInstantiable name (srcClassTypeVarContext w1);
                 w2 = w1\<lparr>srcClassTypeVarContext := srcCtx\<rparr>
             in case srcMemberInfo of
                  None \<Rightarrow>
                    returnM (w2\<lparr>diagAddendum := addMessage (protocolMemberMissing name) (diagAddendum w2),
                                typesAreConsistent := False\<rparr>)
                | Some info \<Rightarrow>
                    bindM (getDeclaredTypeOfSymbol ev symb) (\<lambda>declaredType.
                    bindM (case declaredType of
                             None \<Rightarrow> returnM w2
                           | Some t \<Rightarrow>
                               checkTypedMember T ev destType srcType canAssignFlags
                                 treatSourceAsInstantiable recursionCount mroClass name symb info
                                 isMemberFromMetaclass t w2) (\<lambda>w3.
                    returnM (checkClassVar name symb (symbol info) w3)))
         else returnM w)"

subsection \<open>\<^verbatim>\<open>canAssignClassToProtocolInternal\<close>\<close>

text \<open>Lines 142--393: the walk over the protocol's MRO and each protocol class's members.\<close>

definition checkMroClass ::
  "('t, 'c) typeOps \<Rightarrow> ('t, 'c, 'w) TypeEvaluator \<Rightarrow> 't \<Rightarrow> 't \<Rightarrow> CanAssignFlags \<Rightarrow> bool \<Rightarrow> int
    \<Rightarrow> 't \<Rightarrow> 'c classWalk \<Rightarrow> ('t, 'w, 'c classWalk) eval" where
  "checkMroClass T ev destType srcType canAssignFlags treatSourceAsInstantiable recursionCount
       mroClass w =
     (if \<not> isInstantiableClass T mroClass \<or> \<not> isProtocolClass T mroClass then returnM w
      else forEachM (checkClassMember T ev destType srcType canAssignFlags
                       treatSourceAsInstantiable recursionCount mroClass)
             (classFields T mroClass) w)"

text \<open>
  Lines 395--413, shared by lines 502--520: the type arguments of the protocol are
  verified when every member matched. Yields the result, \<^verbatim>\<open>diag\<close> and \<^verbatim>\<open>typeVarContext\<close>.
\<close>

definition verifyTypeArguments ::
  "('t, 'c) typeOps \<Rightarrow> ('t, 'c, 'w) TypeEvaluator \<Rightarrow> 't \<Rightarrow> 't \<Rightarrow> 'c option \<Rightarrow> CanAssignFlags \<Rightarrow> int
    \<Rightarrow> bool \<Rightarrow> 'c \<Rightarrow> DiagnosticAddendum option
    \<Rightarrow> ('t, 'w, bool \<times> DiagnosticAddendum option \<times> 'c option) eval" where
  "verifyTypeArguments T ev destType genericDestType typeVarContext flags recursionCount
       consistent destCtx diag =
     (if consistent \<and> length (typeParameters T destType) > 0 \<and> typeArguments T destType \<noteq> None then
        let specializedDestProtocol = applySolvedTypeVars T genericDestType destCtx
        in bindM (verifyTypeArgumentsAssignable ev destType specializedDestProtocol diag
                    typeVarContext flags recursionCount)
             (\<lambda>(ok, diag', typeVarContext').
           returnM (if \<not> ok then False else consistent, diag', typeVarContext'))
      else returnM (consistent, diag, typeVarContext))"

text \<open>
  Lines 128--133: the class whose members are compared. For a \<^verbatim>\<open>TypedDict\<close> candidate it
  is the placeholder class that the evaluator hands out, when that is an instantiable
  class; otherwise it is the candidate itself.
\<close>

definition typedDictCandidate ::
  "('t, 'c) typeOps \<Rightarrow> ('t, 'c, 'w) TypeEvaluator \<Rightarrow> 't \<Rightarrow> ('t, 'w, 't) eval" where
  "typedDictCandidate T ev srcType =
     (if isTypedDictClass T srcType then
        bindM (getTypedDictClassType ev) (\<lambda>typedDictClassType.
        returnM (case typedDictClassType of
                   Some c \<Rightarrow> if isInstantiableClass T c then c else srcType
                 | None \<Rightarrow> srcType))
      else returnM srcType)"

text \<open>
  Lines 138--140: the flags of the member comparisons, before the variance of the member
  is taken into account.
\<close>

definition baseCanAssignFlags :: "('t, 'c) typeOps \<Rightarrow> 't \<Rightarrow> CanAssignFlags" where
  "baseCanAssignFlags T srcType =
     (if containsLiteralType T srcType True then {RetainLiteralsForTypeVar} else Default)"

text \<open>
  Lines 104--416. The result is the boolean together with the contents of \<^verbatim>\<open>diag\<close> and
  of \<^verbatim>\<open>typeVarContext\<close> as the call leaves them. \<open>recursionCount\<close> is the count already
  incremented by the caller.
\<close>

definition canAssignClassToProtocolInternal ::
  "('t, 'c) typeOps \<Rightarrow> ('t, 'c, 'w) TypeEvaluator \<Rightarrow> 't \<Rightarrow> 't \<Rightarrow> DiagnosticAddendum option
    \<Rightarrow> 'c option \<Rightarrow> CanAssignFlags \<Rightarrow> bool \<Rightarrow> int
    \<Rightarrow> ('t, 'w, bool \<times> DiagnosticAddendum option \<times> 'c option) eval" where
  "canAssignClassToProtocolInternal T ev destType srcType diag typeVarContext flags
       treatSourceAsInstantiable recursionCount =
     (if EnforceInvariance \<in> flags then returnM (isTypeSame T destType srcType, diag, typeVarContext)
      else
        let genericDestType = cloneForSpecialization T destType None False;
            genericDestCtx = newTypeVarContext T (getTypeVarScopeId T destType);
            selfCtx = populateTypeVarContextForSelfType T
                        (newTypeVarContext T (getTypeVarScopeId T destType)) destType srcType
        in bindM (typedDictCandidate T ev srcType) (\<lambda>srcType'.
           let canAssignFlags = baseCanAssignFlags T srcType';
               w0 = \<lparr>typesAreConsistent = True, checkedSymbolSet = {},
                     genericDestTypeVarContext = genericDestCtx, diagAddendum = diag,
                     srcClassTypeVarContext = buildTypeVarContextFromSpecializedClass T srcType',
                     selfTypeVarContext = selfCtx\<rparr>
           in bindM (forEachM (checkMroClass T ev destType srcType' canAssignFlags
                                 treatSourceAsInstantiable recursionCount)
                       (mro T destType) w0) (\<lambda>w.
              verifyTypeArguments T ev destType genericDestType typeVarContext flags recursionCount
                (typesAreConsistent w) (genericDestTypeVarContext w) (diagAddendum w))))"

subsection \<open>\<^verbatim>\<open>canAssignClassToProtocol\<close>\<close>

text \<open>
  Lines 53--102. \<^verbatim>\<open>push\<close> appends the entry to the stack; \<^verbatim>\<open>pop\<close> removes the last
  entry, and does nothing on an empty array. The \<^verbatim>\<open>catch\<close> clause pops and rethrows.
\<close>

definition push :: "'t ProtocolAssignmentStackEntry \<Rightarrow> ('t, 'w) state \<Rightarrow> ('t, 'w) state" where
  "push entry s = s\<lparr>protocolAssignmentStack := protocolAssignmentStack s @ [entry]\<rparr>"

definition pop :: "('t, 'w) state \<Rightarrow> ('t, 'w) state" where
  "pop s = s\<lparr>protocolAssignmentStack := butlast (protocolAssignmentStack s)\<rparr>"

definition canAssignClassToProtocol ::
  "('t, 'c) typeOps \<Rightarrow> ('t, 'c, 'w) TypeEvaluator \<Rightarrow> 't \<Rightarrow> 't \<Rightarrow> DiagnosticAddendum option
    \<Rightarrow> 'c option \<Rightarrow> CanAssignFlags \<Rightarrow> bool \<Rightarrow> int
    \<Rightarrow> ('t, 'w, bool \<times> DiagnosticAddendum option \<times> 'c option) eval" where
  "canAssignClassToProtocol T ev destType srcType diag typeVarContext flags
       treatSourceAsInstantiable recursionCount =
     (\<lambda>s. if recursionCount > maxTypeRecursionCount T then (Inr (True, diag, typeVarContext), s)
          else
            let recursionCount' = recursionCount + 1
            in if list_ex (\<lambda>entry. isTypeSame T (entrySrcType entry) srcType
                                   \<and> isTypeSame T (entryDestType entry) destType)
                    (protocolAssignmentStack s)
               then (Inr (True, diag, typeVarContext), s)
               else
                 (case canAssignClassToProtocolInternal T ev destType srcType diag typeVarContext
                         flags treatSourceAsInstantiable recursionCount'
                         (push \<lparr>entrySrcType = srcType, entryDestType = destType\<rparr> s) of
                    (Inl e, s') \<Rightarrow> (Inl e, pop s')
                  | (Inr isCompatible, s') \<Rightarrow> (Inr isCompatible, pop s')))"

subsection \<open>\<^verbatim>\<open>canAssignModuleToProtocol\<close>\<close>

text \<open>Lines 460--495: what is done for a member whose declared type is known.\<close>

definition checkTypedModuleMember ::
  "('t, 'c) typeOps \<Rightarrow> ('t, 'c, 'w) TypeEvaluator \<Rightarrow> 't \<Rightarrow> int \<Rightarrow> string \<Rightarrow> Symbol \<Rightarrow> 't
    \<Rightarrow> 'c walk \<Rightarrow> ('t, 'w, 'c walk) eval" where
  "checkTypedModuleMember T ev destType recursionCount name memberSymbol declaredType w =
     (let destMemberType = partiallySpecializeType T declaredType destType None
      in bindM (getEffectiveTypeOfSymbol ev memberSymbol) (\<lambda>srcMemberType.
         bindM (if (isFunction T srcMemberType \<or> isOverloadedFunction T srcMemberType)
                   \<and> (isFunction T destMemberType \<or> isOverloadedFunction T destMemberType)
                then
                  bindM (bindFunctionToClassOrObject ev (cloneAsInstance T destType)
                           destMemberType (Some destType) recursionCount None None)
                    (\<lambda>boundDeclaredType.
                  returnM (case boundDeclaredType of
                             Some f \<Rightarrow> f
                           | None \<Rightarrow> destMemberType))
                else returnM destMemberType) (\<lambda>destMemberType'.
         let subDiag = createAddendum (diagAddendum w)
         in bindM (canAssignType ev destMemberType' srcMemberType (createAddendum subDiag)
                     (genericDestTypeVarContext w) Default recursionCount)
              (\<lambda>(ok, child, destCtx).
            let subDiag' = addAddendum subDiag child;
                w' = w\<lparr>genericDestTypeVarContext := destCtx\<rparr>
            in returnM
                 (if \<not> ok then
                    w'\<lparr>diagAddendum :=
                          addAddendum (diagAddendum w')
                            (addMessage (memberTypeMismatch name) subDiag'),
                        typesAreConsistent := False\<rparr>
                  else w'\<lparr>diagAddendum := addAddendum (diagAddendum w') subDiag'\<rparr>)))))"

text \<open>Lines 444--499: the callback of the inner loop.\<close>

definition checkModuleMember ::
  "('t, 'c) typeOps \<Rightarrow> ('t, 'c, 'w) TypeEvaluator \<Rightarrow> 't \<Rightarrow> 't \<Rightarrow> int \<Rightarrow> string \<times> Symbol \<Rightarrow> 'c walk
    \<Rightarrow> ('t, 'w, 'c walk) eval" where
  "checkModuleMember T ev destType srcType recursionCount entry w =
     (let name = fst entry; symb = snd entry
      in if isClassMember symb \<and> \<not> isIgnoredForProtocolMatch symb \<and> name \<notin> checkedSymbolSet w then
           let w1 = w\<lparr>checkedSymbolSet := insert name (checkedSymbolSet w)\<rparr>
           in case moduleFields T srcType name of
                None \<Rightarrow>
                  returnM (w1\<lparr>diagAddendum := addMessage (protocolMemberMissing name) (diagAddendum w1),
                              typesAreConsistent := False\<rparr>)
              | Some memberSymbol \<Rightarrow>
                  bindM (getDeclaredTypeOfSymbol ev symb) (\<lambda>declaredType.
                  case declaredType of
                    None \<Rightarrow> returnM w1
                  | Some t \<Rightarrow>
                      checkTypedModuleMember T ev destType recursionCount name memberSymbol t w1)
         else returnM w)"

text \<open>Lines 439--500: the walk over the protocol's MRO.\<close>

definition checkModuleMroClass ::
  "('t, 'c) typeOps \<Rightarrow> ('t, 'c, 'w) TypeEvaluator \<Rightarrow> 't \<Rightarrow> 't \<Rightarrow> int \<Rightarrow> 't \<Rightarrow> 'c walk
    \<Rightarrow> ('t, 'w, 'c walk) eval" where
  "checkModuleMroClass T ev destType srcType recursionCount mroClass w =
     (if \<not> isInstantiableClass T mroClass \<or> \<not> isProtocolClass T mroClass then returnM w
      else forEachM (checkModuleMember T ev destType srcType recursionCount)
             (classFields T mroClass) w)"

text \<open>Lines 418--523.\<close>

definition canAssignModuleToProtocol ::
  "('t, 'c) typeOps \<Rightarrow> ('t, 'c, 'w) TypeEvaluator \<Rightarrow> 't \<Rightarrow> 't \<Rightarrow> DiagnosticAddendum option
    \<Rightarrow> 'c option \<Rightarrow> CanAssignFlags \<Rightarrow> int
    \<Rightarrow> ('t, 'w, bool \<times> DiagnosticAddendum option \<times> 'c option) eval" where
  "canAssignModuleToProtocol T ev destType srcType diag typeVarContext flags recursionCount =
     (if recursionCount > maxTypeRecursionCount T then returnM (True, diag, typeVarContext)
      else
        let recursionCount' = recursionCount + 1;
            w0 = \<lparr>typesAreConsistent = True, checkedSymbolSet = {},
                  genericDestTypeVarContext = newTypeVarContext T (getTypeVarScopeId T destType),
                  diagAddendum = diag\<rparr>;
            genericDestType = cloneForSpecialization T destType None False
        in bindM (forEachM (checkModuleMroClass T ev destType srcType recursionCount')
                    (mro T destType) w0) (\<lambda>w.
           verifyTypeArguments T ev destType genericDestType typeVarContext flags recursionCount'
             (typesAreConsistent w) (genericDestTypeVarContext w) (diagAddendum w)))"

subsection \<open>\<^verbatim>\<open>canAssignProtocolClassToSelf\<close>\<close>

text \<open>
  The locals of the function: \<open>isAssignable\<close> and the contents of the two objects it
  creates, \<^verbatim>\<open>diag\<close> and \<^verbatim>\<open>typeVarContext\<close>.
\<close>

record 'c selfWalk =
  isAssignable :: bool
  selfDiag :: "DiagnosticAddendum option"
  selfContext :: 'c

text \<open>Lines 542--597: the callback of the loop over the protocol's own member table.\<close>

definition checkSelfMember ::
  "('t, 'c) typeOps \<Rightarrow> ('t, 'c, 'w) TypeEvaluator \<Rightarrow> 't \<Rightarrow> 't \<Rightarrow> int \<Rightarrow> string \<times> Symbol
    \<Rightarrow> 'c selfWalk \<Rightarrow> ('t, 'w, 'c selfWalk) eval" where
  "checkSelfMember T ev destType srcType recursionCount entry w =
     (let name = fst entry; symb = snd entry
      in if isAssignable w \<and> isClassMember symb \<and> \<not> isIgnoredForProtocolMatch symb then
           case lookUpClassMember T srcType name of
             None \<Rightarrow> throwM AssertionFailed
           | Some memberInfo \<Rightarrow>
               bindM (getDeclaredTypeOfSymbol ev symb) (\<lambda>declaredType.
               case declaredType of
                 None \<Rightarrow> returnM w
               | Some t \<Rightarrow>
                   bindM (getTypeOfMember ev memberInfo) (\<lambda>srcMemberType.
                   let destMemberType = partiallySpecializeType T t destType None
                   in if isClassInstance T destMemberType \<and> isPropertyClass T destMemberType
                         \<and> isClassInstance T srcMemberType \<and> isPropertyClass T srcMemberType then
                        bindM (canAssignProperty ev (cloneAsInstantiable T destMemberType)
                                 (cloneAsInstantiable T srcMemberType) destType srcType (selfDiag w)
                                 (selfContext w) None recursionCount)
                          (\<lambda>(ok, diag', ctx', _).
                        returnM (w\<lparr>selfDiag := diag', selfContext := ctx',
                                   isAssignable := (if \<not> ok then False else isAssignable w)\<rparr>))
                      else
                        bindM (canAssignType ev destMemberType srcMemberType (selfDiag w)
                                 (selfContext w)
                                 (if isInvariant symb then {EnforceInvariance} else Default)
                                 recursionCount)
                          (\<lambda>(ok, diag', ctx').
                        returnM (w\<lparr>selfDiag := diag', selfContext := ctx',
                                   isAssignable := (if \<not> ok then False else isAssignable w)\<rparr>))))
         else returnM w)"

text \<open>Lines 533--597: the assertions and the walk over the own members.\<close>

definition checkSelfMembers ::
  "('t, 'c) typeOps \<Rightarrow> ('t, 'c, 'w) TypeEvaluator \<Rightarrow> 't \<Rightarrow> 't \<Rightarrow> int \<Rightarrow> ('t, 'w, bool) eval" where
  "checkSelfMembers T ev destType srcType recursionCount =
     bindM (assertM (isProtocolClass T destType)) (\<lambda>_.
     bindM (assertM (isProtocolClass T srcType)) (\<lambda>_.
     bindM (assertM (isSameGenericClass T destType srcType)) (\<lambda>_.
     bindM (assertM (length (typeParameters T destType) > 0)) (\<lambda>_.
     bindM (forEachM (checkSelfMember T ev destType srcType recursionCount)
              (classFields T destType)
              \<lparr>isAssignable = True, selfDiag = Some (DiagnosticAddendum [] []),
               selfContext = newTypeVarContext T None\<rparr>) (\<lambda>w.
     returnM (isAssignable w))))))"

text \<open>Lines 601--607: the base classes the check recurses into.\<close>

definition isGenericProtocolBase :: "('t, 'c) typeOps \<Rightarrow> 't \<Rightarrow> bool" where
  "isGenericProtocolBase T baseClass \<longleftrightarrow>
     isInstantiableClass T baseClass \<and> isProtocolClass T baseClass
     \<and> \<not> isBuiltIn T baseClass ''object'' \<and> \<not> isBuiltIn T baseClass ''Protocol''
     \<and> length (typeParameters T baseClass) > 0"



section \<open>Properties\<close>

subsection \<open>Predicates used in the statements\<close>

text \<open>
  \<^verbatim>\<open>protocolAssignmentStack\<close> is private to the module, so a collaborator reaches it only by
  calling back into \<^verbatim>\<open>canAssignClassToProtocol\<close>. \<open>keepsStack m\<close> says that the
  computation \<open>m\<close> leaves the stack as it found it, however it ends; \<open>balanced ev\<close> says so
  of every collaborator.
\<close>

definition keepsStack :: "('t, 'w, 'a) eval \<Rightarrow> bool" where
  "keepsStack m \<longleftrightarrow> (\<forall>s. protocolAssignmentStack (snd (m s)) = protocolAssignmentStack s)"

definition balanced :: "('t, 'c, 'w) TypeEvaluator \<Rightarrow> bool" where
  "balanced ev \<longleftrightarrow>
     keepsStack (getTypedDictClassType ev)
     \<and> (\<forall>a. keepsStack (getDeclaredTypeOfSymbol ev a))
     \<and> (\<forall>a. keepsStack (getEffectiveTypeOfSymbol ev a))
     \<and> (\<forall>a. keepsStack (getTypeOfMember ev a))
     \<and> (\<forall>a. keepsStack (inferReturnTypeIfNecessary ev a))
     \<and> (\<forall>a b c d e f. keepsStack (bindFunctionToClassOrObject ev a b c d e f))
     \<and> (\<forall>a b. keepsStack (getGetterTypeFromProperty ev a b))
     \<and> (\<forall>a b c d e f. keepsStack (canAssignType ev a b c d e f))
     \<and> (\<forall>a b c d e f g h. keepsStack (canAssignProperty ev a b c d e f g h))
     \<and> (\<forall>a b c d e f. keepsStack (verifyTypeArgumentsAssignable ev a b c d e f))"

text \<open>
  \<open>postM m Q\<close>: whenever the computation \<open>m\<close> returns normally, its result satisfies
  \<open>Q\<close>.
\<close>

definition postM :: "('t, 'w, 'a) eval \<Rightarrow> ('a \<Rightarrow> bool) \<Rightarrow> bool" where
  "postM m Q \<longleftrightarrow> (\<forall>s x s'. m s = (Inr x, s') \<longrightarrow> Q x)"

text \<open>
  \<open>sinkGrows d d'\<close>: the addendum \<open>d'\<close> is \<open>d\<close> with messages and children appended, and
  there is a sink after exactly when there was one before. \<open>grows w w'\<close>: from the locals
  \<open>w\<close> to the locals \<open>w'\<close> the verdict has not gone from false to true, no name has left
  the checked set, and the diagnostics have only been added to.
\<close>

definition sinkGrows :: "DiagnosticAddendum option \<Rightarrow> DiagnosticAddendum option \<Rightarrow> bool" where
  "sinkGrows d d' \<longleftrightarrow>
     (case d of
        None \<Rightarrow> d' = None
      | Some a \<Rightarrow>
          (case d' of
             None \<Rightarrow> False
           | Some a' \<Rightarrow>
               prefix (messages a) (messages a') \<and> prefix (childAddenda a) (childAddenda a')))"

definition grows :: "('c, 'm) walk_scheme \<Rightarrow> ('c, 'm) walk_scheme \<Rightarrow> bool" where
  "grows w w' \<longleftrightarrow>
     (typesAreConsistent w' \<longrightarrow> typesAreConsistent w)
     \<and> checkedSymbolSet w \<subseteq> checkedSymbolSet w'
     \<and> sinkGrows (diagAddendum w) (diagAddendum w')"

text \<open>
  The entries of a member table that the class comparison goes on to check, once their
  name is not in the checked set (lines 148--162), and those that the module comparison
  checks (line 445).
\<close>

definition eligibleMember :: "bool \<Rightarrow> string \<times> Symbol \<Rightarrow> bool" where
  "eligibleMember treatSourceAsInstantiable entry \<longleftrightarrow>
     isClassMember (snd entry) \<and> \<not> isIgnoredForProtocolMatch (snd entry)
     \<and> fst entry \<noteq> ''__slots__''
     \<and> (treatSourceAsInstantiable \<or> fst entry \<noteq> ''__class_getitem__'')"

definition eligibleModuleMember :: "string \<times> Symbol \<Rightarrow> bool" where
  "eligibleModuleMember entry \<longleftrightarrow>
     isClassMember (snd entry) \<and> \<not> isIgnoredForProtocolMatch (snd entry)"

text \<open>
  The candidate class has no member of that name: neither lookup of lines 168--183
  finds one.
\<close>

definition memberMissing :: "('t, 'c) typeOps \<Rightarrow> bool \<Rightarrow> string \<Rightarrow> 't \<Rightarrow> bool" where
  "memberMissing T treatSourceAsInstantiable name srcType \<longleftrightarrow>
     lookUpClassMember T srcType name = None
     \<and> (treatSourceAsInstantiable \<longrightarrow>
          (case effectiveMetaclass T srcType of
             None \<Rightarrow> True
           | Some metaclass \<Rightarrow>
               isInstantiableClass T metaclass \<longrightarrow> lookUpClassMember T metaclass name = None))"


text \<open>The message of lines 366--379 for a member whose finality differs on the two sides.\<close>

definition finalMessage :: "string \<Rightarrow> Symbol \<Rightarrow> message" where
  "finalMessage name symb =
     (if isFinalVariable symb then memberIsFinalInProtocol name else memberIsNotFinalInProtocol name)"




text \<open>
  \<open>withVerdict b w\<close>: the locals \<open>w\<close> of a walk, with the verdict \<open>b\<close> of what came
  before it conjoined to its own.
\<close>

definition withVerdict :: "bool \<Rightarrow> ('c, 'm) walk_scheme \<Rightarrow> ('c, 'm) walk_scheme" where
  "withVerdict b w = w\<lparr>typesAreConsistent := b \<and> typesAreConsistent w\<rparr>"

subsection \<open>A small universe for concrete runs\<close>

text \<open>
  Types are named by strings. \<open>Proto\<close> is a generic protocol class with the members \<open>x\<close>
  (a mutable variable of type \<open>int\<close>) and \<open>m\<close> (a method); its base \<open>Base\<close> declares \<open>x\<close>
  again. The class \<open>Cand\<close> and the module \<open>Mod\<close> have a member \<open>x\<close> of type \<open>float\<close> and
  no \<open>m\<close>. \<open>Movie\<close> is a \<^verbatim>\<open>TypedDict\<close> class with a member \<open>m\<close>; its placeholder class
  \<open>_TypedDict\<close> has no members. The evaluator accepts an assignment exactly when invariance is not enforced,
  and logs the flags of every \<^verbatim>\<open>canAssignType\<close> call in the \<open>world\<close>.
\<close>

definition variableSymbol :: "nat \<Rightarrow> bool \<Rightarrow> bool \<Rightarrow> Symbol" where
  "variableSymbol n final classVar =
     \<lparr>symbolId = n, isClassMember = True, isClassVar = classVar,
      isIgnoredForProtocolMatch = False,
      getDeclarations = [\<lparr>declType = Variable, isFinal = final, hasTypeInfo = True\<rparr>]\<rparr>"

definition methodSymbol :: "nat \<Rightarrow> Symbol" where
  "methodSymbol n =
     \<lparr>symbolId = n, isClassMember = True, isClassVar = False, isIgnoredForProtocolMatch = False,
      getDeclarations = [\<lparr>declType = Function, isFinal = False, hasTypeInfo = True\<rparr>]\<rparr>"

definition instanceSymbol :: "nat \<Rightarrow> Symbol" where
  "instanceSymbol n =
     \<lparr>symbolId = n, isClassMember = False, isClassVar = False, isIgnoredForProtocolMatch = False,
      getDeclarations = [\<lparr>declType = Variable, isFinal = False, hasTypeInfo = True\<rparr>]\<rparr>"

definition exTypes :: "(string, nat) typeOps" where
  "exTypes =
     \<lparr>maxTypeRecursionCount = 16,
      isInstantiableClass =
        (\<lambda>t. t \<in> {''Proto'', ''Base'', ''Cand'', ''object'', ''Movie'', ''_TypedDict''}),
      isClassInstance = (\<lambda>t. t \<in> {''int'', ''float''}),
      isFunction = (\<lambda>t. t = ''method''),
      isOverloadedFunction = (\<lambda>t. False),
      isTypeSame = (\<lambda>a b. a = b),
      unknownType = ''Unknown'',
      cloneForSpecialization = (\<lambda>t args explicit. t),
      cloneAsInstance = (\<lambda>t. t),
      cloneAsInstantiable = (\<lambda>t. t),
      isTypedDictClass = (\<lambda>t. t = ''Movie''),
      isProtocolClass = (\<lambda>t. t \<in> {''Proto'', ''Base''}),
      isPropertyClass = (\<lambda>t. False),
      isSameGenericClass = (\<lambda>a b. a = b),
      isBuiltIn = (\<lambda>t name. t = name),
      mro = (\<lambda>t. if t = ''Proto'' then [''Proto'', ''Base'', ''object''] else [t]),
      classFields = (\<lambda>t. if t = ''Proto'' then [(''x'', variableSymbol 1 False False),
                                                  (''m'', methodSymbol 2)]
                          else if t = ''Base'' then [(''x'', variableSymbol 1 False False)]
                          else []),
      effectiveMetaclass = (\<lambda>t. None),
      typeParameters = (\<lambda>t. if t = ''Proto'' \<or> t = ''Base'' then [''T''] else []),
      typeArguments = (\<lambda>t. None),
      baseClasses = (\<lambda>t. if t = ''Proto'' then [''Base'', ''object''] else []),
      moduleFields = (\<lambda>t. if t = ''Mod'' then [''x'' \<mapsto> instanceSymbol 3] else Map.empty),
      applySolvedTypeVars = (\<lambda>t c. t),
      buildTypeVarContextFromSpecializedClass = (\<lambda>t. 0),
      containsLiteralType = (\<lambda>t includeTypeArgs. False),
      getTypeVarScopeId = (\<lambda>t. Some t),
      lookUpClassMember =
        (\<lambda>t name. if name = ''x'' \<and> t \<in> {''Cand'', ''Proto'', ''Base''}
                   then Some \<lparr>symbol = instanceSymbol 3, classType = t\<rparr>
                   else if name = ''m'' \<and> t \<in> {''Proto'', ''Movie''}
                   then Some \<lparr>symbol = methodSymbol 2, classType = t\<rparr>
                   else None),
      partiallySpecializeType = (\<lambda>t c s. t),
      populateTypeVarContextForSelfType = (\<lambda>c d s. c),
      removeParamSpecVariadicsFromSignature = (\<lambda>t. t),
      specializeForBaseClass = (\<lambda>t b. b),
      newTypeVarContext = (\<lambda>scope. 0),
      addSolveForScope = (\<lambda>c scope. c)\<rparr>"

definition exEvaluator :: "(string, nat, CanAssignFlags list) TypeEvaluator" where
  "exEvaluator =
     \<lparr>getTypedDictClassType = returnM (Some ''_TypedDict''),
      getDeclaredTypeOfSymbol =
        (\<lambda>symb. returnM (if symbolId symb = 1 then Some ''int''
                         else if symbolId symb = 2 then Some ''method'' else None)),
      getEffectiveTypeOfSymbol = (\<lambda>symb. returnM ''float''),
      getTypeOfMember = (\<lambda>info. returnM ''float''),
      inferReturnTypeIfNecessary = (\<lambda>t. returnM t),
      bindFunctionToClassOrObject =
        (\<lambda>base member memberClass rc treatCtor firstParam. returnM (Some member)),
      getGetterTypeFromProperty = (\<lambda>t infer. returnM None),
      canAssignType =
        (\<lambda>dest src diag ctx flags rc s.
           (Inr (EnforceInvariance \<notin> flags, diag, ctx), s\<lparr>world := world s @ [flags]\<rparr>)),
      canAssignProperty =
        (\<lambda>dest src destClass srcClass diag ctx selfCtx rc. returnM (True, diag, ctx, selfCtx)),
      verifyTypeArgumentsAssignable = (\<lambda>dest src diag ctx flags rc. returnM (True, diag, ctx))\<rparr>"

text \<open>The same evaluator, failing abnormally whenever the type of a member is asked for.\<close>

definition exFailingEvaluator :: "(string, nat, CanAssignFlags list) TypeEvaluator" where
  "exFailingEvaluator =
     exEvaluator\<lparr>getEffectiveTypeOfSymbol := (\<lambda>symb. throwM (Thrown ''evaluation failed''))\<rparr>"

definition exState :: "(string, CanAssignFlags list) state" where
  "exState =
     \<lparr>protocolAssignmentStack = [\<lparr>entrySrcType = ''Other'', entryDestType = ''Proto''\<rparr>],
      world = []\<rparr>"

definition exWalk :: "nat classWalk" where
  "exWalk =
     \<lparr>typesAreConsistent = True, checkedSymbolSet = {}, genericDestTypeVarContext = 0,
      diagAddendum = Some (DiagnosticAddendum [] []), srcClassTypeVarContext = 0,
      selfTypeVarContext = 0\<rparr>"

definition exModuleWalk :: "nat walk" where
  "exModuleWalk =
     \<lparr>typesAreConsistent = True, checkedSymbolSet = {}, genericDestTypeVarContext = 0,
      diagAddendum = Some (DiagnosticAddendum [] [])\<rparr>"


definition exDefaultAssign ::
  "string \<Rightarrow> string \<Rightarrow> DiagnosticAddendum option \<Rightarrow> nat \<Rightarrow> CanAssignFlags \<Rightarrow> int
    \<Rightarrow> (string, CanAssignFlags list, bool \<times> DiagnosticAddendum option \<times> nat) eval" where
  "exDefaultAssign dest src diag ctx flags rc =
     (if flags = Default then canAssignType exEvaluator dest src diag ctx flags rc
      else throwM (Thrown ''unexpected flags''))"

text \<open>
  The same types with type arguments supplied for every class, and an evaluator that
  accepts every member and refuses the type arguments.
\<close>

definition exGenericTypes :: "(string, nat) typeOps" where
  "exGenericTypes = exTypes\<lparr>typeArguments := (\<lambda>t. Some [''int''])\<rparr>"

definition exLenientEvaluator :: "(string, nat, CanAssignFlags list) TypeEvaluator" where
  "exLenientEvaluator =
     exEvaluator\<lparr>canAssignType :=
                   (\<lambda>dest src diag ctx flags rc s.
                      (Inr (True, diag, ctx), s\<lparr>world := world s @ [flags]\<rparr>)),
                 verifyTypeArgumentsAssignable :=
                   (\<lambda>dest src diag ctx flags rc. returnM (False, diag, ctx))\<rparr>"

text \<open>The same types, with \<open>int\<close> and \<open>float\<close> taken to be property classes.\<close>

definition exPropertyTypes :: "(string, nat) typeOps" where
  "exPropertyTypes = exTypes\<lparr>isPropertyClass := (\<lambda>t. t = ''int'' \<or> t = ''float'')\<rparr>"

lemmas model_defs =
  canAssignClassToProtocol_def canAssignClassToProtocolInternal_def typedDictCandidate_def
  baseCanAssignFlags_def checkMroClass_def
  checkClassMember_def checkTypedMember_def checkClassVar_def checkFinal_def
  compareMemberTypes_def recordMismatch_def isInvariant_def isFinalVariable_def
  getTypedDeclarations_def bindMemberTypes_def getSrcMemberType_def lookUpSrcMember_def
  verifyTypeArguments_def canAssignModuleToProtocol_def checkModuleMroClass_def
  checkModuleMember_def checkTypedModuleMember_def checkSelfMembers_def checkSelfMember_def isGenericProtocolBase_def
  push_def pop_def bindM_def returnM_def throwM_def assertM_def
  addMessage_def createAddendum_def addAddendum_def Default_def Let_def

lemmas example_defs =
  exTypes_def exEvaluator_def exFailingEvaluator_def exState_def exWalk_def exModuleWalk_def
  variableSymbol_def methodSymbol_def instanceSymbol_def exGenericTypes_def
  exLenientEvaluator_def exPropertyTypes_def

subsection \<open>The guard stack\<close>

lemma keepsStack_returnM: "keepsStack (returnM x)"
  by (simp add: keepsStack_def returnM_def)

lemma keepsStack_throwM: "keepsStack (throwM e)"
  by (simp add: keepsStack_def throwM_def)

lemma keepsStack_bindM: "keepsStack m \<Longrightarrow> (\<And>x. keepsStack (f x)) \<Longrightarrow> keepsStack (bindM m f)"
  by (auto simp: keepsStack_def bindM_def split: prod.splits sum.splits) (metis snd_conv)+

lemma keepsStack_if:
  "(c \<Longrightarrow> keepsStack a) \<Longrightarrow> (\<not> c \<Longrightarrow> keepsStack b) \<Longrightarrow> keepsStack (if c then a else b)"
  by simp

lemma keepsStack_case_option:
  "keepsStack a \<Longrightarrow> (\<And>x. keepsStack (f x)) \<Longrightarrow> keepsStack (case_option a f v)"
  by (cases v) simp_all

lemma keepsStack_case_prod: "(\<And>a b. keepsStack (f a b)) \<Longrightarrow> keepsStack (case_prod f p)"
  by (cases p) simp

lemma keepsStack_forEachM: "(\<And>x w. keepsStack (f x w)) \<Longrightarrow> keepsStack (forEachM f xs w)"
  by (induction xs arbitrary: w) (auto intro: keepsStack_returnM keepsStack_bindM)

lemmas keepsStack_intros =
  keepsStack_returnM keepsStack_throwM keepsStack_bindM keepsStack_if keepsStack_case_option
  keepsStack_case_prod keepsStack_forEachM

lemma keepsStack_getSrcMemberType:
  "balanced ev \<Longrightarrow> keepsStack (getSrcMemberType T ev srcType info)"
  unfolding getSrcMemberType_def by (intro keepsStack_intros) (simp_all add: balanced_def)

lemma keepsStack_bindMemberTypes:
  "balanced ev \<Longrightarrow> keepsStack (bindMemberTypes T ev srcType selfCtx tr rc fromMeta info d s)"
  unfolding bindMemberTypes_def Let_def by (intro keepsStack_intros) (simp_all add: balanced_def)

lemma keepsStack_compareMemberTypes:
  "balanced ev \<Longrightarrow>
   keepsStack (compareMemberTypes T ev srcType mroClass fl tr rc name symb d s sub w)"
  unfolding compareMemberTypes_def Let_def by (intro keepsStack_intros) (simp_all add: balanced_def)

lemma keepsStack_checkTypedMember:
  "balanced ev \<Longrightarrow>
   keepsStack (checkTypedMember T ev destType srcType fl tr rc mroClass name symb info fromMeta t w)"
  unfolding checkTypedMember_def Let_def
  by (intro keepsStack_intros keepsStack_getSrcMemberType keepsStack_bindMemberTypes
        keepsStack_compareMemberTypes)

lemma keepsStack_checkClassMember:
  "balanced ev \<Longrightarrow>
   keepsStack (checkClassMember T ev destType srcType fl tr rc mroClass entry w)"
  unfolding checkClassMember_def Let_def
  by (intro keepsStack_intros keepsStack_checkTypedMember) (simp_all add: balanced_def)

lemma keepsStack_checkMroClass:
  "balanced ev \<Longrightarrow> keepsStack (checkMroClass T ev destType srcType fl tr rc mroClass w)"
  unfolding checkMroClass_def by (intro keepsStack_intros keepsStack_checkClassMember)

lemma keepsStack_verifyTypeArguments:
  "balanced ev \<Longrightarrow> keepsStack (verifyTypeArguments T ev destType g tvc fl rc ok ctx dg)"
  unfolding verifyTypeArguments_def Let_def
  by (intro keepsStack_intros) (simp_all add: balanced_def)

lemma keepsStack_Internal:
  "balanced ev \<Longrightarrow>
   keepsStack (canAssignClassToProtocolInternal T ev destType srcType dg tvc fl tr rc)"
  unfolding canAssignClassToProtocolInternal_def typedDictCandidate_def Let_def
  by (intro keepsStack_intros keepsStack_checkMroClass keepsStack_verifyTypeArguments)
     (simp_all add: balanced_def)

lemma stack_pop_push:
  "protocolAssignmentStack s' = protocolAssignmentStack (push e s) \<Longrightarrow>
   protocolAssignmentStack (pop s') = protocolAssignmentStack s"
  by (simp add: pop_def push_def)

text \<open>
  Claim C1. A call of \<open>canAssignClassToProtocol\<close> leaves the guard stack as it found it,
  whether it returns or throws, provided the collaborators it calls do so too (they reach
  the stack only through nested calls of this function). In particular, when the call has
  pushed its entry and \<open>canAssignClassToProtocolInternal\<close> ends with an exception \<open>e\<close>, the
  call pops the entry and ends with the same exception.
\<close>

theorem guard_stack_balanced:
  assumes "balanced ev"
  shows "protocolAssignmentStack
           (snd (canAssignClassToProtocol T ev destType srcType dg tvc fl tr rc s))
         = protocolAssignmentStack s
       \<and> (\<forall>e s'. \<not> rc > maxTypeRecursionCount T
            \<longrightarrow> \<not> list_ex (\<lambda>entry. isTypeSame T (entrySrcType entry) srcType
                                  \<and> isTypeSame T (entryDestType entry) destType)
                    (protocolAssignmentStack s)
            \<longrightarrow> canAssignClassToProtocolInternal T ev destType srcType dg tvc fl tr (rc + 1)
                  (push \<lparr>entrySrcType = srcType, entryDestType = destType\<rparr> s) = (Inl e, s')
            \<longrightarrow> canAssignClassToProtocol T ev destType srcType dg tvc fl tr rc s = (Inl e, pop s')
                \<and> protocolAssignmentStack (pop s') = protocolAssignmentStack s)"
proof -
  let ?entry = "\<lparr>entrySrcType = srcType, entryDestType = destType\<rparr>"
  let ?run = "canAssignClassToProtocolInternal T ev destType srcType dg tvc fl tr (rc + 1)"
  have kept: "protocolAssignmentStack (snd (?run (push ?entry s)))
                = protocolAssignmentStack (push ?entry s)"
    using keepsStack_Internal [OF assms] by (simp add: keepsStack_def)
  have popped:
    "protocolAssignmentStack (pop (snd (?run (push ?entry s)))) = protocolAssignmentStack s"
    using kept by (rule stack_pop_push)
  have first: "protocolAssignmentStack
           (snd (canAssignClassToProtocol T ev destType srcType dg tvc fl tr rc s))
         = protocolAssignmentStack s"
    using popped
    by (cases "?run (push ?entry s)")
       (auto simp: canAssignClassToProtocol_def Let_def split: sum.splits)
  have second: "canAssignClassToProtocol T ev destType srcType dg tvc fl tr rc s = (Inl e, pop s')
                \<and> protocolAssignmentStack (pop s') = protocolAssignmentStack s"
    if "\<not> rc > maxTypeRecursionCount T"
      and "\<not> list_ex (\<lambda>entry. isTypeSame T (entrySrcType entry) srcType
                                  \<and> isTypeSame T (entryDestType entry) destType)
                    (protocolAssignmentStack s)"
      and "?run (push ?entry s) = (Inl e, s')" for e s'
    using that popped by (simp add: canAssignClassToProtocol_def Let_def)
  show ?thesis using first second by blast
qed

lemma balanced_exFailingEvaluator: "balanced exFailingEvaluator"
  by (simp add: balanced_def keepsStack_def exFailingEvaluator_def exEvaluator_def
        returnM_def throwM_def)

theorem guard_stack_balanced_witness:
  "balanced exFailingEvaluator
   \<and> canAssignClassToProtocolInternal exTypes exFailingEvaluator ''Proto'' ''Cand'' None None {}
        False (0 + 1) (push \<lparr>entrySrcType = ''Cand'', entryDestType = ''Proto''\<rparr> exState)
       = (Inl (Thrown ''evaluation failed''),
          push \<lparr>entrySrcType = ''Cand'', entryDestType = ''Proto''\<rparr> exState)
   \<and> canAssignClassToProtocol exTypes exFailingEvaluator ''Proto'' ''Cand'' None None {} False 0
        exState
       = (Inl (Thrown ''evaluation failed''), exState)
   \<and> protocolAssignmentStack
        (snd (canAssignClassToProtocol exTypes exFailingEvaluator ''Proto'' ''Cand'' None None {}
                False 0 exState))
       = protocolAssignmentStack exState"
proof -
  let ?pushed = "push \<lparr>entrySrcType = ''Cand'', entryDestType = ''Proto''\<rparr> exState"
  have run: "canAssignClassToProtocolInternal exTypes exFailingEvaluator ''Proto'' ''Cand'' None
        None {} False (0 + 1) ?pushed = (Inl (Thrown ''evaluation failed''), ?pushed)"
    by (simp add: model_defs example_defs)
  have restored: "pop ?pushed = exState"
    by (simp add: pop_def push_def exState_def)
  have depth: "\<not> 0 > maxTypeRecursionCount exTypes"
    by (simp add: exTypes_def)
  have absent: "\<not> list_ex (\<lambda>entry. isTypeSame exTypes (entrySrcType entry) ''Cand''
                                  \<and> isTypeSame exTypes (entryDestType entry) ''Proto'')
                    (protocolAssignmentStack exState)"
    by (simp add: exTypes_def exState_def)
  note inst = guard_stack_balanced [OF balanced_exFailingEvaluator, where T = exTypes
        and destType = "''Proto''" and srcType = "''Cand''" and dg = None and tvc = None
        and fl = "{}" and tr = False and rc = 0 and s = exState]
  from inst have kept: "protocolAssignmentStack
        (snd (canAssignClassToProtocol exTypes exFailingEvaluator ''Proto'' ''Cand'' None None {}
                False 0 exState)) = protocolAssignmentStack exState"
    by (rule conjunct1)
  from inst depth absent run
  have "canAssignClassToProtocol exTypes exFailingEvaluator ''Proto'' ''Cand'' None None {} False 0
        exState = (Inl (Thrown ''evaluation failed''), pop ?pushed)"
    by blast
  with restored have thrown: "canAssignClassToProtocol exTypes exFailingEvaluator ''Proto'' ''Cand''
        None None {} False 0 exState = (Inl (Thrown ''evaluation failed''), exState)"
    by simp
  show ?thesis using balanced_exFailingEvaluator run thrown kept by blast
qed

text \<open>
  Claim C2. When \<open>recursionCount\<close> exceeds the maximum, \<open>canAssignClassToProtocol\<close> and
  \<open>canAssignModuleToProtocol\<close> return \<open>true\<close> at once; when an entry that \<open>isTypeSame\<close>
  equates with the pair of candidate and protocol is on the guard stack,
  \<open>canAssignClassToProtocol\<close> returns \<open>true\<close> at once. In both cases the state, and with
  it the guard stack, and the diagnostics are left untouched, whatever the evaluator: no
  collaborator is consulted.
\<close>

theorem optimistic_results:
  "(recursionCount > maxTypeRecursionCount T \<longrightarrow>
      canAssignClassToProtocol T ev destType srcType dg tvc fl tr recursionCount s
        = (Inr (True, dg, tvc), s)
      \<and> canAssignModuleToProtocol T ev destType moduleType dg tvc fl recursionCount s
        = (Inr (True, dg, tvc), s))
   \<and> (list_ex (\<lambda>entry. isTypeSame T (entrySrcType entry) srcType
                       \<and> isTypeSame T (entryDestType entry) destType)
         (protocolAssignmentStack s) \<longrightarrow>
      canAssignClassToProtocol T ev destType srcType dg tvc fl tr recursionCount s
        = (Inr (True, dg, tvc), s))"
  by (simp add: canAssignClassToProtocol_def canAssignModuleToProtocol_def returnM_def Let_def)

theorem optimistic_results_witness:
  "(17::int) > maxTypeRecursionCount exTypes
   \<and> canAssignClassToProtocol exTypes exEvaluator ''Proto'' ''Cand'' None None {} False 17 exState
       = (Inr (True, None, None), exState)
   \<and> canAssignModuleToProtocol exTypes exEvaluator ''Proto'' ''Mod'' None None {} 17 exState
       = (Inr (True, None, None), exState)
   \<and> list_ex (\<lambda>entry. isTypeSame exTypes (entrySrcType entry) ''Other''
                      \<and> isTypeSame exTypes (entryDestType entry) ''Proto'')
        (protocolAssignmentStack exState)
   \<and> canAssignClassToProtocol exTypes exEvaluator ''Proto'' ''Other'' None None {} False 0 exState
       = (Inr (True, None, None), exState)"
proof -
  have deep: "(17::int) > maxTypeRecursionCount exTypes"
    by (simp add: exTypes_def)
  have pending: "list_ex (\<lambda>entry. isTypeSame exTypes (entrySrcType entry) ''Other''
                      \<and> isTypeSame exTypes (entryDestType entry) ''Proto'')
        (protocolAssignmentStack exState)"
    by (simp add: exTypes_def exState_def)
  show ?thesis
    using deep pending
      optimistic_results [where recursionCount = 17 and T = exTypes and ev = exEvaluator
        and destType = "''Proto''" and srcType = "''Cand''" and moduleType = "''Mod''"
        and dg = None and tvc = None and fl = "{}" and tr = False and s = exState]
      optimistic_results [where recursionCount = 0 and T = exTypes and ev = exEvaluator
        and destType = "''Proto''" and srcType = "''Other''" and moduleType = "''Mod''"
        and dg = None and tvc = None and fl = "{}" and tr = False and s = exState]
    by blast
qed

subsection \<open>Postconditions of the member walk\<close>

lemma postM_returnM: "Q x \<Longrightarrow> postM (returnM x) Q"
  by (simp add: postM_def returnM_def)

lemma postM_throwM: "postM (throwM e) Q"
  by (simp add: postM_def throwM_def)

lemma postM_bindM: "postM m P \<Longrightarrow> (\<And>x. P x \<Longrightarrow> postM (f x) Q) \<Longrightarrow> postM (bindM m f) Q"
  by (fastforce simp: postM_def bindM_def split: prod.splits sum.splits)

lemma postM_bindM_any: "(\<And>x. postM (f x) Q) \<Longrightarrow> postM (bindM m f) Q"
  by (fastforce simp: postM_def bindM_def split: prod.splits sum.splits)

lemma postM_weaken: "postM m P \<Longrightarrow> (\<And>x. P x \<Longrightarrow> Q x) \<Longrightarrow> postM m Q"
  by (simp add: postM_def)

lemma postM_conj: "postM m P \<Longrightarrow> postM m Q \<Longrightarrow> postM m (\<lambda>x. P x \<and> Q x)"
  by (simp add: postM_def)

lemma postM_forEachM:
  "(\<And>x w. x \<in> set xs \<Longrightarrow> I w \<Longrightarrow> postM (f x w) I) \<Longrightarrow> I w \<Longrightarrow> postM (forEachM f xs w) I"
proof (induction xs arbitrary: w)
  case Nil
  then show ?case by (simp add: postM_returnM)
next
  case (Cons x xs)
  have "postM (f x w) I" using Cons.prems by simp
  moreover have "postM (forEachM f xs w') I" if "I w'" for w'
    using Cons.IH [OF _ that] Cons.prems(1) by simp
  ultimately show ?case by (simp add: postM_bindM)
qed


lemma sinkGrows_refl: "sinkGrows d d"
  by (cases d) (auto simp: sinkGrows_def)

lemma sinkGrows_trans: "sinkGrows a b \<Longrightarrow> sinkGrows b c \<Longrightarrow> sinkGrows a c"
  by (cases a; cases b; cases c) (auto simp: sinkGrows_def)

lemma sinkGrows_addMessage: "sinkGrows d (addMessage m d)"
  by (cases d) (auto simp: sinkGrows_def addMessage_def)

lemma sinkGrows_addAddendum: "sinkGrows d (addAddendum d c)"
  by (cases d; cases c) (auto simp: sinkGrows_def addAddendum_def)

lemma grows_refl: "grows w w"
  by (simp add: grows_def sinkGrows_refl)

lemma grows_trans: "grows a b \<Longrightarrow> grows b c \<Longrightarrow> grows a c"
  unfolding grows_def by (meson order_trans sinkGrows_trans)

lemma compareMemberTypes_frame:
  "postM (compareMemberTypes T ev srcType mroClass fl tr rc name symb d s sub w)
     (\<lambda>(sub', w'). checkedSymbolSet w' = checkedSymbolSet w
        \<and> diagAddendum w' = diagAddendum w
        \<and> (typesAreConsistent w' \<longrightarrow> typesAreConsistent w))"
  unfolding compareMemberTypes_def
  by (auto simp: postM_def bindM_def returnM_def recordMismatch_def Let_def
        split: prod.splits sum.splits option.splits if_splits)

lemma checkFinal_frame:
  "checkFinal name symb srcSymbol sub w = (sub', w') \<Longrightarrow>
   checkedSymbolSet w' = checkedSymbolSet w \<and> diagAddendum w' = diagAddendum w
   \<and> (typesAreConsistent w' \<longrightarrow> typesAreConsistent w)"
  by (auto simp: checkFinal_def recordMismatch_def Let_def split: if_splits)

lemma checkTypedMember_grows:
  "postM (checkTypedMember T ev destType srcType fl tr rc mroClass name symb info fromMeta t w)
     (\<lambda>w'. grows w w' \<and> checkedSymbolSet w' = checkedSymbolSet w)"
  unfolding checkTypedMember_def Let_def
  apply (intro postM_bindM_any)
  apply (clarsimp split: prod.splits)
  apply (rule postM_bindM [OF compareMemberTypes_frame])
  apply (clarsimp split: prod.splits)
  apply (rule postM_returnM)
  apply (drule checkFinal_frame)
  apply (auto simp: grows_def sinkGrows_addAddendum)
  done

lemma checkClassVar_grows: "grows w (checkClassVar name symb srcSymbol w)"
  by (auto simp: grows_def checkClassVar_def sinkGrows_addMessage sinkGrows_refl)

lemma checkClassVar_checked:
  "checkedSymbolSet (checkClassVar name symb srcSymbol w) = checkedSymbolSet w"
  by (auto simp: checkClassVar_def)

subsection \<open>One member of the class comparison\<close>

lemma lookUpSrcMember_missing:
  "memberMissing T tr name srcType \<Longrightarrow> lookUpSrcMember T srcType tr name ctx = (None, False, ctx)"
  by (auto simp: memberMissing_def lookUpSrcMember_def split: option.splits)

lemma checkClassMember_checked:
  "fst entry \<in> checkedSymbolSet w \<Longrightarrow>
   checkClassMember T ev destType srcType fl tr rc mroClass entry w = returnM w"
  by (simp add: checkClassMember_def Let_def)

lemma checkClassMember_not_eligible:
  "\<not> eligibleMember tr entry \<Longrightarrow>
   checkClassMember T ev destType srcType fl tr rc mroClass entry w = returnM w"
  by (auto simp: checkClassMember_def eligibleMember_def Let_def)

lemma checkClassMember_missing:
  assumes "eligibleMember tr (name, symb)" and "name \<notin> checkedSymbolSet w"
    and "memberMissing T tr name srcType"
  shows "checkClassMember T ev destType srcType fl tr rc mroClass (name, symb) w
         = returnM (w\<lparr>checkedSymbolSet := insert name (checkedSymbolSet w),
                      diagAddendum := addMessage (protocolMemberMissing name) (diagAddendum w),
                      typesAreConsistent := False\<rparr>)"
  using assms
  by (auto simp: checkClassMember_def eligibleMember_def Let_def lookUpSrcMember_missing)

lemma checkClassMember_grows:
  "postM (checkClassMember T ev destType srcType fl tr rc mroClass entry w)
     (\<lambda>w'. grows w w' \<and> checkedSymbolSet w' \<subseteq> insert (fst entry) (checkedSymbolSet w)
          \<and> (eligibleMember tr entry \<longrightarrow> fst entry \<in> checkedSymbolSet w'))"
proof (cases "eligibleMember tr entry \<and> fst entry \<notin> checkedSymbolSet w")
  case False
  then have "checkClassMember T ev destType srcType fl tr rc mroClass entry w = returnM w"
    using checkClassMember_checked checkClassMember_not_eligible by metis
  with False show ?thesis by (auto simp: postM_def returnM_def grows_refl)
next
  case True
  obtain info fromMeta ctx where look:
    "lookUpSrcMember T srcType tr (fst entry) (srcClassTypeVarContext w) = (info, fromMeta, ctx)"
    by (cases "lookUpSrcMember T srcType tr (fst entry) (srcClassTypeVarContext w)") auto
  let ?w2 = "w\<lparr>checkedSymbolSet := insert (fst entry) (checkedSymbolSet w),
               srcClassTypeVarContext := ctx\<rparr>"
  have w2: "grows w ?w2" by (auto simp: grows_def sinkGrows_refl)
  show ?thesis
  proof (cases info)
    case None
    with True look show ?thesis
      by (auto simp: checkClassMember_def eligibleMember_def Let_def postM_def returnM_def
            grows_def sinkGrows_addMessage)
  next
    case (Some mi)
    have typed: "postM (case declaredType of
                     None \<Rightarrow> returnM ?w2
                   | Some t \<Rightarrow> checkTypedMember T ev destType srcType fl tr rc mroClass (fst entry)
                                (snd entry) mi fromMeta t ?w2)
                  (\<lambda>w'. grows ?w2 w' \<and> checkedSymbolSet w' = checkedSymbolSet ?w2)"
      for declaredType
    proof (cases declaredType)
      case None
      then show ?thesis by (simp add: postM_returnM grows_refl)
    next
      case (Some t)
      show ?thesis unfolding Some option.case by (rule checkTypedMember_grows)
    qed
    have "postM (bindM (getDeclaredTypeOfSymbol ev (snd entry)) (\<lambda>declaredType.
                 bindM (case declaredType of
                     None \<Rightarrow> returnM ?w2
                   | Some t \<Rightarrow> checkTypedMember T ev destType srcType fl tr rc mroClass (fst entry)
                                (snd entry) mi fromMeta t ?w2) (\<lambda>w3.
                 returnM (checkClassVar (fst entry) (snd entry) (symbol mi) w3))))
            (\<lambda>w'. grows w w' \<and> checkedSymbolSet w' \<subseteq> insert (fst entry) (checkedSymbolSet w)
                 \<and> (eligibleMember tr entry \<longrightarrow> fst entry \<in> checkedSymbolSet w'))"
      apply (rule postM_bindM_any)
      apply (rule postM_bindM [OF typed])
      apply (rule postM_returnM)
      using w2 apply (auto simp: checkClassVar_checked intro: grows_trans checkClassVar_grows)
      done
    with True look Some show ?thesis
      by (auto simp: checkClassMember_def eligibleMember_def Let_def)
  qed
qed

subsection \<open>Missing members in the class comparison\<close>

lemma sinkGrows_message:
  "sinkGrows d d' \<Longrightarrow> d = Some a \<Longrightarrow> m \<in> set (messages a) \<Longrightarrow>
   \<exists>a'. d' = Some a' \<and> m \<in> set (messages a')"
  by (cases d') (auto simp: sinkGrows_def dest: set_mono_prefix)




lemma checkMroClass_grows:
  "postM (checkMroClass T ev destType srcType fl tr rc mroClass w) (grows w)"
  unfolding checkMroClass_def
  by (auto simp: postM_returnM grows_refl
        intro!: postM_forEachM [where I = "grows w"]
        intro: postM_weaken [OF checkClassMember_grows] grows_trans)



subsection \<open>Missing members in the module comparison\<close>

lemma checkModuleMember_checked:
  "fst entry \<in> checkedSymbolSet w \<Longrightarrow>
   checkModuleMember T ev destType srcType rc entry w = returnM w"
  by (simp add: checkModuleMember_def Let_def)

lemma checkModuleMember_not_eligible:
  "\<not> eligibleModuleMember entry \<Longrightarrow>
   checkModuleMember T ev destType srcType rc entry w = returnM w"
  by (auto simp: checkModuleMember_def eligibleModuleMember_def Let_def)


lemma checkTypedModuleMember_grows:
  "postM (checkTypedModuleMember T ev destType rc name memberSymbol t w)
     (\<lambda>w'. grows w w' \<and> checkedSymbolSet w' = checkedSymbolSet w)"
  unfolding checkTypedModuleMember_def Let_def
  by (intro postM_bindM_any)
     (auto simp: grows_def sinkGrows_addAddendum postM_def returnM_def split: if_splits)

lemma checkModuleMember_grows:
  "postM (checkModuleMember T ev destType srcType rc entry w)
     (\<lambda>w'. grows w w' \<and> checkedSymbolSet w' \<subseteq> insert (fst entry) (checkedSymbolSet w)
          \<and> (eligibleModuleMember entry \<longrightarrow> fst entry \<in> checkedSymbolSet w'))"
proof (cases "eligibleModuleMember entry \<and> fst entry \<notin> checkedSymbolSet w")
  case False
  then have "checkModuleMember T ev destType srcType rc entry w = returnM w"
    using checkModuleMember_checked checkModuleMember_not_eligible by metis
  with False show ?thesis by (auto simp: postM_def returnM_def grows_refl)
next
  case True
  let ?w1 = "w\<lparr>checkedSymbolSet := insert (fst entry) (checkedSymbolSet w)\<rparr>"
  have w1: "grows w ?w1" by (auto simp: grows_def sinkGrows_refl)
  show ?thesis
  proof (cases "moduleFields T srcType (fst entry)")
    case None
    with True show ?thesis
      by (auto simp: checkModuleMember_def eligibleModuleMember_def Let_def postM_def returnM_def
            grows_def sinkGrows_addMessage)
  next
    case (Some memberSymbol)
    have typed: "postM (case declaredType of
                     None \<Rightarrow> returnM ?w1
                   | Some t \<Rightarrow> checkTypedModuleMember T ev destType rc (fst entry) memberSymbol t ?w1)
                  (\<lambda>w'. grows ?w1 w' \<and> checkedSymbolSet w' = checkedSymbolSet ?w1)"
      for declaredType
    proof (cases declaredType)
      case None
      then show ?thesis by (simp add: postM_returnM grows_refl)
    next
      case (Some t)
      show ?thesis unfolding Some option.case by (rule checkTypedModuleMember_grows)
    qed
    have "postM (bindM (getDeclaredTypeOfSymbol ev (snd entry)) (\<lambda>declaredType.
                 case declaredType of
                     None \<Rightarrow> returnM ?w1
                   | Some t \<Rightarrow> checkTypedModuleMember T ev destType rc (fst entry) memberSymbol t ?w1))
            (\<lambda>w'. grows w w' \<and> checkedSymbolSet w' \<subseteq> insert (fst entry) (checkedSymbolSet w)
                 \<and> (eligibleModuleMember entry \<longrightarrow> fst entry \<in> checkedSymbolSet w'))"
      apply (rule postM_bindM_any)
      apply (rule postM_weaken [OF typed])
      using w1 apply (auto intro: grows_trans)
      done
    with True Some show ?thesis
      by (auto simp: checkModuleMember_def eligibleModuleMember_def Let_def)
  qed
qed



lemma checkModuleMroClass_grows:
  "postM (checkModuleMroClass T ev destType srcType rc mroClass w) (grows w)"
  unfolding checkModuleMroClass_def
  by (auto simp: postM_returnM grows_refl
        intro!: postM_forEachM [where I = "grows w"]
        intro: postM_weaken [OF checkModuleMember_grows] grows_trans)



subsection \<open>The result once a member is reported\<close>



subsection \<open>The checked-name set\<close>

lemma class_walk_grows:
  "postM (forEachM (checkMroClass T ev destType srcType fl tr rc) classes w) (grows w)"
  by (rule postM_forEachM)
     (auto simp: grows_refl intro: postM_weaken [OF checkMroClass_grows] grows_trans)

lemma module_walk_grows:
  "postM (forEachM (checkModuleMroClass T ev destType srcType rc) classes w) (grows w)"
  by (rule postM_forEachM)
     (auto simp: grows_refl intro: postM_weaken [OF checkModuleMroClass_grows] grows_trans)

text \<open>
  Claim C5. A member name is evaluated at most once in a comparison, in the class
  comparison and in the module comparison alike: an entry whose name is in the checked
  set is passed over without consulting any collaborator and without changing anything;
  an entry that is due to be checked has its name in the checked set once the callback
  returns, whatever the lookup of the candidate's member and the checks gave; and no name
  leaves the checked set during the walk over the ancestors, so a redeclaration of the
  name by a later ancestor is passed over.
\<close>

theorem names_checked_once:
  "(fst entry \<in> checkedSymbolSet w \<longrightarrow>
      checkClassMember T ev destType srcType fl tr rc mroClass entry w = returnM w)
   \<and> (fst entry \<in> checkedSymbolSet v \<longrightarrow>
      checkModuleMember T ev destType moduleType rc entry v = returnM v)
   \<and> postM (checkClassMember T ev destType srcType fl tr rc mroClass entry w)
        (\<lambda>w'. checkedSymbolSet w \<subseteq> checkedSymbolSet w'
             \<and> (eligibleMember tr entry \<longrightarrow> fst entry \<in> checkedSymbolSet w'))
   \<and> postM (checkModuleMember T ev destType moduleType rc entry v)
        (\<lambda>v'. checkedSymbolSet v \<subseteq> checkedSymbolSet v'
             \<and> (eligibleModuleMember entry \<longrightarrow> fst entry \<in> checkedSymbolSet v'))
   \<and> postM (forEachM (checkMroClass T ev destType srcType fl tr rc) classes w)
        (\<lambda>w'. checkedSymbolSet w \<subseteq> checkedSymbolSet w')
   \<and> postM (forEachM (checkModuleMroClass T ev destType moduleType rc) classes v)
        (\<lambda>v'. checkedSymbolSet v \<subseteq> checkedSymbolSet v')"
proof (intro conjI impI)
  show "checkClassMember T ev destType srcType fl tr rc mroClass entry w = returnM w"
    if "fst entry \<in> checkedSymbolSet w"
    using that by (rule checkClassMember_checked)
  show "checkModuleMember T ev destType moduleType rc entry v = returnM v"
    if "fst entry \<in> checkedSymbolSet v"
    using that by (rule checkModuleMember_checked)
  show "postM (checkClassMember T ev destType srcType fl tr rc mroClass entry w)
        (\<lambda>w'. checkedSymbolSet w \<subseteq> checkedSymbolSet w'
             \<and> (eligibleMember tr entry \<longrightarrow> fst entry \<in> checkedSymbolSet w'))"
    by (rule postM_weaken [OF checkClassMember_grows]) (simp add: grows_def)
  show "postM (checkModuleMember T ev destType moduleType rc entry v)
        (\<lambda>v'. checkedSymbolSet v \<subseteq> checkedSymbolSet v'
             \<and> (eligibleModuleMember entry \<longrightarrow> fst entry \<in> checkedSymbolSet v'))"
    by (rule postM_weaken [OF checkModuleMember_grows]) (simp add: grows_def)
  show "postM (forEachM (checkMroClass T ev destType srcType fl tr rc) classes w)
        (\<lambda>w'. checkedSymbolSet w \<subseteq> checkedSymbolSet w')"
    by (rule postM_weaken [OF class_walk_grows]) (simp add: grows_def)
  show "postM (forEachM (checkModuleMroClass T ev destType moduleType rc) classes v)
        (\<lambda>v'. checkedSymbolSet v \<subseteq> checkedSymbolSet v')"
    by (rule postM_weaken [OF module_walk_grows]) (simp add: grows_def)
qed

theorem names_checked_once_witness:
  "fst (''x'', variableSymbol 1 False False) \<in> checkedSymbolSet (exWalk\<lparr>checkedSymbolSet := {''x''}\<rparr>)
   \<and> checkClassMember exTypes exEvaluator ''Proto'' ''Cand'' {} False 1 ''Base''
        (''x'', variableSymbol 1 False False) (exWalk\<lparr>checkedSymbolSet := {''x''}\<rparr>)
       = returnM (exWalk\<lparr>checkedSymbolSet := {''x''}\<rparr>)
   \<and> fst (''x'', variableSymbol 1 False False)
        \<in> checkedSymbolSet (exModuleWalk\<lparr>checkedSymbolSet := {''x''}\<rparr>)
   \<and> checkModuleMember exTypes exEvaluator ''Proto'' ''Mod'' 1
        (''x'', variableSymbol 1 False False) (exModuleWalk\<lparr>checkedSymbolSet := {''x''}\<rparr>)
       = returnM (exModuleWalk\<lparr>checkedSymbolSet := {''x''}\<rparr>)
   \<and> eligibleMember False (''x'', variableSymbol 1 False False)
   \<and> eligibleModuleMember (''x'', variableSymbol 1 False False)
   \<and> (\<exists>w' s'. checkClassMember exTypes exEvaluator ''Proto'' ''Cand'' {} False 1 ''Proto''
                  (''x'', variableSymbol 1 False False) exWalk exState = (Inr w', s')
          \<and> fst (''x'', variableSymbol 1 False False) \<in> checkedSymbolSet w')
   \<and> (\<exists>v' s'. checkModuleMember exTypes exEvaluator ''Proto'' ''Mod'' 1
                  (''x'', variableSymbol 1 False False) exModuleWalk exState = (Inr v', s')
          \<and> fst (''x'', variableSymbol 1 False False) \<in> checkedSymbolSet v')
   \<and> (\<exists>w' s'. forEachM (checkMroClass exTypes exEvaluator ''Proto'' ''Cand'' {} False 1)
                  [''Proto'', ''Base''] (exWalk\<lparr>checkedSymbolSet := {''x''}\<rparr>) exState = (Inr w', s')
          \<and> checkedSymbolSet (exWalk\<lparr>checkedSymbolSet := {''x''}\<rparr>) \<subseteq> checkedSymbolSet w')
   \<and> (\<exists>v' s'. forEachM (checkModuleMroClass exTypes exEvaluator ''Proto'' ''Mod'' 1)
                  [''Proto'', ''Base''] (exModuleWalk\<lparr>checkedSymbolSet := {''x''}\<rparr>) exState
                = (Inr v', s')
          \<and> checkedSymbolSet (exModuleWalk\<lparr>checkedSymbolSet := {''x''}\<rparr>) \<subseteq> checkedSymbolSet v')"
proof -
  let ?entry = "(''x'', variableSymbol 1 False False)"
  let ?w = "exWalk\<lparr>checkedSymbolSet := {''x''}\<rparr>"
  let ?v = "exModuleWalk\<lparr>checkedSymbolSet := {''x''}\<rparr>"
  have seen: "fst ?entry \<in> checkedSymbolSet ?w" "fst ?entry \<in> checkedSymbolSet ?v"
    by simp_all
  have eligible: "eligibleMember False ?entry" "eligibleModuleMember ?entry"
    by (simp_all add: eligibleMember_def eligibleModuleMember_def variableSymbol_def)
  have "\<exists>w' s'. checkClassMember exTypes exEvaluator ''Proto'' ''Cand'' {} False 1 ''Proto''
                  ?entry exWalk exState = (Inr w', s')"
    by (simp add: model_defs example_defs)
  then obtain w1 s1 where run1:
    "checkClassMember exTypes exEvaluator ''Proto'' ''Cand'' {} False 1 ''Proto'' ?entry exWalk
       exState = (Inr w1, s1)"
    by blast
  have "\<exists>v' s'. checkModuleMember exTypes exEvaluator ''Proto'' ''Mod'' 1 ?entry exModuleWalk
                  exState = (Inr v', s')"
    by (simp add: model_defs example_defs exModuleWalk_def)
  then obtain v1 t1 where run2:
    "checkModuleMember exTypes exEvaluator ''Proto'' ''Mod'' 1 ?entry exModuleWalk exState
       = (Inr v1, t1)"
    by blast
  have "\<exists>w' s'. forEachM (checkMroClass exTypes exEvaluator ''Proto'' ''Cand'' {} False 1)
                  [''Proto'', ''Base''] ?w exState = (Inr w', s')"
    by (simp add: model_defs example_defs)
  then obtain w2 s2 where run3:
    "forEachM (checkMroClass exTypes exEvaluator ''Proto'' ''Cand'' {} False 1)
       [''Proto'', ''Base''] ?w exState = (Inr w2, s2)"
    by blast
  have "\<exists>v' s'. forEachM (checkModuleMroClass exTypes exEvaluator ''Proto'' ''Mod'' 1)
                  [''Proto'', ''Base''] ?v exState = (Inr v', s')"
    by (simp add: model_defs example_defs exModuleWalk_def)
  then obtain v2 t2 where run4:
    "forEachM (checkModuleMroClass exTypes exEvaluator ''Proto'' ''Mod'' 1)
       [''Proto'', ''Base''] ?v exState = (Inr v2, t2)"
    by blast
  note skipping = names_checked_once [where entry = ?entry and w = ?w and v = ?v
      and T = exTypes and ev = exEvaluator and destType = "''Proto''" and srcType = "''Cand''"
      and moduleType = "''Mod''" and fl = "{}" and tr = False and rc = 1
      and mroClass = "''Base''" and classes = "[''Proto'', ''Base'']", unfolded postM_def]
  note marking = names_checked_once [where entry = ?entry and w = exWalk and v = exModuleWalk
      and T = exTypes and ev = exEvaluator and destType = "''Proto''" and srcType = "''Cand''"
      and moduleType = "''Mod''" and fl = "{}" and tr = False and rc = 1
      and mroClass = "''Proto''" and classes = "[]", unfolded postM_def]
  have skipped:
    "checkClassMember exTypes exEvaluator ''Proto'' ''Cand'' {} False 1 ''Base'' ?entry ?w
       = returnM ?w"
    "checkModuleMember exTypes exEvaluator ''Proto'' ''Mod'' 1 ?entry ?v = returnM ?v"
    using skipping seen by blast+
  have marked: "fst ?entry \<in> checkedSymbolSet w1" "fst ?entry \<in> checkedSymbolSet v1"
    using marking eligible run1 run2 by blast+
  have kept: "checkedSymbolSet ?w \<subseteq> checkedSymbolSet w2" "checkedSymbolSet ?v \<subseteq> checkedSymbolSet v2"
    using skipping run3 run4 by blast+
  show ?thesis
    using seen eligible skipped marked kept run1 run2 run3 run4 by blast
qed

subsection \<open>The names that are not protocol members\<close>

text \<open>
  Claim C6. In the class comparison an entry named \<^verbatim>\<open>__slots__\<close> is passed over, whether
  the candidate is compared as an instance or as a class object: the callback changes
  nothing and consults no collaborator. An entry named \<^verbatim>\<open>__class_getitem__\<close> is passed
  over in the same way when the candidate is compared as an instance. When the candidate
  is compared as a class object, such an entry (a class member, not ignored for protocol
  matching, not yet checked) is checked like any other: its name enters the checked set,
  and if the candidate lacks the member, that is reported.
\<close>

theorem special_names_skipped:
  "checkClassMember T ev destType srcType fl tr rc mroClass (''__slots__'', symb) w = returnM w
   \<and> (\<not> tr \<longrightarrow>
        checkClassMember T ev destType srcType fl tr rc mroClass (''__class_getitem__'', symb) w
          = returnM w)
   \<and> (tr \<and> isClassMember symb \<and> \<not> isIgnoredForProtocolMatch symb
        \<and> ''__class_getitem__'' \<notin> checkedSymbolSet w \<longrightarrow>
        postM (checkClassMember T ev destType srcType fl tr rc mroClass
                 (''__class_getitem__'', symb) w)
          (\<lambda>w'. ''__class_getitem__'' \<in> checkedSymbolSet w')
        \<and> (memberMissing T tr ''__class_getitem__'' srcType \<longrightarrow>
             checkClassMember T ev destType srcType fl tr rc mroClass
               (''__class_getitem__'', symb) w
             = returnM (w\<lparr>checkedSymbolSet := insert ''__class_getitem__'' (checkedSymbolSet w),
                          diagAddendum := addMessage (protocolMemberMissing ''__class_getitem__'')
                                            (diagAddendum w),
                          typesAreConsistent := False\<rparr>)))"
proof (intro conjI impI)
  show "checkClassMember T ev destType srcType fl tr rc mroClass (''__slots__'', symb) w = returnM w"
    by (simp add: checkClassMember_def Let_def)
  show "checkClassMember T ev destType srcType fl tr rc mroClass (''__class_getitem__'', symb) w
          = returnM w" if "\<not> tr"
    using that by (simp add: checkClassMember_def Let_def)
next
  assume a: "tr \<and> isClassMember symb \<and> \<not> isIgnoredForProtocolMatch symb
        \<and> ''__class_getitem__'' \<notin> checkedSymbolSet w"
  then have eligible: "eligibleMember tr (''__class_getitem__'', symb)"
    by (simp add: eligibleMember_def)
  show "postM (checkClassMember T ev destType srcType fl tr rc mroClass
                 (''__class_getitem__'', symb) w)
          (\<lambda>w'. ''__class_getitem__'' \<in> checkedSymbolSet w')"
    by (rule postM_weaken [OF checkClassMember_grows]) (use eligible in simp)
  show "checkClassMember T ev destType srcType fl tr rc mroClass
               (''__class_getitem__'', symb) w
             = returnM (w\<lparr>checkedSymbolSet := insert ''__class_getitem__'' (checkedSymbolSet w),
                          diagAddendum := addMessage (protocolMemberMissing ''__class_getitem__'')
                                            (diagAddendum w),
                          typesAreConsistent := False\<rparr>)"
    if "memberMissing T tr ''__class_getitem__'' srcType"
    using eligible a that by (intro checkClassMember_missing) simp_all
qed

theorem special_names_skipped_witness:
  "isClassMember (methodSymbol 2) \<and> \<not> isIgnoredForProtocolMatch (methodSymbol 2)
   \<and> ''__class_getitem__'' \<notin> checkedSymbolSet exWalk
   \<and> memberMissing exTypes True ''__class_getitem__'' ''Cand''
   \<and> checkClassMember exTypes exEvaluator ''Proto'' ''Cand'' {} True 1 ''Proto''
        (''__slots__'', methodSymbol 2) exWalk = returnM exWalk
   \<and> checkClassMember exTypes exEvaluator ''Proto'' ''Cand'' {} False 1 ''Proto''
        (''__class_getitem__'', methodSymbol 2) exWalk = returnM exWalk
   \<and> checkClassMember exTypes exEvaluator ''Proto'' ''Cand'' {} True 1 ''Proto''
        (''__class_getitem__'', methodSymbol 2) exWalk
       = returnM (exWalk\<lparr>checkedSymbolSet := insert ''__class_getitem__'' (checkedSymbolSet exWalk),
                    diagAddendum := addMessage (protocolMemberMissing ''__class_getitem__'')
                                      (diagAddendum exWalk),
                    typesAreConsistent := False\<rparr>)"
proof -
  have given: "isClassMember (methodSymbol 2)" "\<not> isIgnoredForProtocolMatch (methodSymbol 2)"
    "''__class_getitem__'' \<notin> checkedSymbolSet exWalk"
    "memberMissing exTypes True ''__class_getitem__'' ''Cand''"
    by (simp_all add: methodSymbol_def exWalk_def memberMissing_def exTypes_def)
  show ?thesis
    using given
      special_names_skipped [where T = exTypes and ev = exEvaluator and destType = "''Proto''"
        and srcType = "''Cand''" and fl = "{}" and tr = True and rc = 1 and mroClass = "''Proto''"
        and symb = "methodSymbol 2" and w = exWalk]
      special_names_skipped [where T = exTypes and ev = exEvaluator and destType = "''Proto''"
        and srcType = "''Cand''" and fl = "{}" and tr = False and rc = 1 and mroClass = "''Proto''"
        and symb = "methodSymbol 2" and w = exWalk]
    by blast
qed

subsection \<open>Agreement on finality\<close>

lemma compareMemberTypes_subDiag:
  "postM (compareMemberTypes T ev srcType mroClass fl tr rc name symb d s (Some a) w)
     (\<lambda>(sub', w'). diagAddendum w' = diagAddendum w
        \<and> (\<exists>a'. sub' = Some a'
              \<and> set (messages a') \<subseteq> set (messages a) \<union> {memberTypeMismatch name, memberIsInvariant name}))"
  unfolding compareMemberTypes_def
  by (auto simp: postM_def bindM_def returnM_def recordMismatch_def Let_def addMessage_def
        addAddendum_def createAddendum_def
        split: prod.splits sum.splits option.splits if_splits)

lemma compareMemberTypes_noSink:
  "postM (compareMemberTypes T ev srcType mroClass fl tr rc name symb d s None w)
     (\<lambda>(sub', w'). diagAddendum w' = diagAddendum w \<and> sub' = None)"
  unfolding compareMemberTypes_def
  by (auto simp: postM_def bindM_def returnM_def recordMismatch_def Let_def addMessage_def
        addAddendum_def createAddendum_def
        split: prod.splits sum.splits option.splits if_splits)

text \<open>
  Claim C7. For a protocol member with a declared type and the candidate's member, each
  side is final when one of its typed declarations is a variable marked final. When
  exactly one side is final, the comparison is marked inconsistent and the last message
  of the member's addendum says which: \<open>memberIsFinalInProtocol\<close> when the protocol's
  side is final, \<open>memberIsNotFinalInProtocol\<close> when the candidate's is. When the sides
  agree, the check changes nothing, and neither message is in the member's addendum.
\<close>

theorem final_agreement:
  "(isFinalVariable symb \<noteq> isFinalVariable srcSymbol \<longrightarrow>
      checkFinal name symb srcSymbol sub w
        = (addMessage (finalMessage name symb) sub, w\<lparr>typesAreConsistent := False\<rparr>))
   \<and> (isFinalVariable symb = isFinalVariable srcSymbol \<longrightarrow>
      checkFinal name symb srcSymbol sub w = (sub, w))
   \<and> postM (checkTypedMember T ev destType srcType fl tr rc mroClass name symb info fromMeta t w)
        (\<lambda>w'. (isFinalVariable symb \<noteq> isFinalVariable (symbol info) \<longrightarrow> \<not> typesAreConsistent w')
             \<and> (case diagAddendum w of
                  None \<Rightarrow> diagAddendum w' = None
                | Some d \<Rightarrow>
                    (\<exists>subDiag. diagAddendum w'
                         = Some (DiagnosticAddendum (messages d) (childAddenda d @ [subDiag]))
                       \<and> (if isFinalVariable symb \<noteq> isFinalVariable (symbol info)
                          then messages subDiag \<noteq> []
                               \<and> last (messages subDiag) = finalMessage name symb
                          else memberIsFinalInProtocol name \<notin> set (messages subDiag)
                               \<and> memberIsNotFinalInProtocol name \<notin> set (messages subDiag)))))"
proof (intro conjI impI)
  show "checkFinal name symb srcSymbol sub w
        = (addMessage (finalMessage name symb) sub, w\<lparr>typesAreConsistent := False\<rparr>)"
    if "isFinalVariable symb \<noteq> isFinalVariable srcSymbol"
    using that by (simp add: checkFinal_def recordMismatch_def finalMessage_def Let_def)
  show "checkFinal name symb srcSymbol sub w = (sub, w)"
    if "isFinalVariable symb = isFinalVariable srcSymbol"
    using that by (simp add: checkFinal_def Let_def)
  show "postM (checkTypedMember T ev destType srcType fl tr rc mroClass name symb info fromMeta t w)
        (\<lambda>w'. (isFinalVariable symb \<noteq> isFinalVariable (symbol info) \<longrightarrow> \<not> typesAreConsistent w')
             \<and> (case diagAddendum w of
                  None \<Rightarrow> diagAddendum w' = None
                | Some d \<Rightarrow>
                    (\<exists>subDiag. diagAddendum w'
                         = Some (DiagnosticAddendum (messages d) (childAddenda d @ [subDiag]))
                       \<and> (if isFinalVariable symb \<noteq> isFinalVariable (symbol info)
                          then messages subDiag \<noteq> []
                               \<and> last (messages subDiag) = finalMessage name symb
                          else memberIsFinalInProtocol name \<notin> set (messages subDiag)
                               \<and> memberIsNotFinalInProtocol name \<notin> set (messages subDiag)))))"
  proof (cases "diagAddendum w")
    case None
    show ?thesis
      unfolding checkTypedMember_def Let_def None createAddendum_def option.map
      apply (intro postM_bindM_any)
      apply (clarsimp split: prod.splits)
      apply (rule postM_bindM [OF compareMemberTypes_noSink])
      apply (auto simp: postM_def returnM_def checkFinal_def recordMismatch_def Let_def None
                addAddendum_def addMessage_def split: prod.splits if_splits)
      done
  next
    case (Some d)
    show ?thesis
      unfolding checkTypedMember_def Let_def Some createAddendum_def option.map
      apply (intro postM_bindM_any)
      apply (clarsimp split: prod.splits)
      apply (rule postM_bindM [OF compareMemberTypes_subDiag])
      apply (auto simp: postM_def returnM_def checkFinal_def recordMismatch_def Let_def Some
                addAddendum_def addMessage_def finalMessage_def split: prod.splits if_splits)
      done
  qed
qed


theorem final_agreement_witness:
  "isFinalVariable (variableSymbol 1 True False) \<noteq> isFinalVariable (instanceSymbol 3)
   \<and> checkFinal ''x'' (variableSymbol 1 True False) (instanceSymbol 3)
        (Some (DiagnosticAddendum [] [])) exWalk
       = (addMessage (finalMessage ''x'' (variableSymbol 1 True False))
            (Some (DiagnosticAddendum [] [])),
          exWalk\<lparr>typesAreConsistent := False\<rparr>)
   \<and> finalMessage ''x'' (variableSymbol 1 True False) = memberIsFinalInProtocol ''x''
   \<and> isFinalVariable (variableSymbol 1 False False) = isFinalVariable (instanceSymbol 3)
   \<and> checkFinal ''x'' (variableSymbol 1 False False) (instanceSymbol 3)
        (Some (DiagnosticAddendum [] [])) exWalk
       = (Some (DiagnosticAddendum [] []), exWalk)
   \<and> (\<exists>w' s' subDiag.
         checkTypedMember exTypes exEvaluator ''Proto'' ''Cand'' {} False 1 ''Proto'' ''x''
           (variableSymbol 1 True False) \<lparr>symbol = instanceSymbol 3, classType = ''Cand''\<rparr>
           False ''int'' exWalk exState = (Inr w', s')
         \<and> \<not> typesAreConsistent w'
         \<and> diagAddendum w' = Some (DiagnosticAddendum [] [subDiag])
         \<and> last (messages subDiag) = finalMessage ''x'' (variableSymbol 1 True False))"
proof -
  let ?final = "variableSymbol 1 True False"
  let ?info = "\<lparr>symbol = instanceSymbol 3, classType = ''Cand''\<rparr> :: string ClassMember"
  have differ: "isFinalVariable ?final \<noteq> isFinalVariable (instanceSymbol 3)"
    and differ': "isFinalVariable ?final \<noteq> isFinalVariable (symbol ?info)"
    and agree: "isFinalVariable (variableSymbol 1 False False) = isFinalVariable (instanceSymbol 3)"
    and named: "finalMessage ''x'' ?final = memberIsFinalInProtocol ''x''"
    by (simp_all add: isFinalVariable_def getTypedDeclarations_def finalMessage_def
          variableSymbol_def instanceSymbol_def)
  have sink: "diagAddendum exWalk = Some (DiagnosticAddendum [] [])"
    by (simp add: exWalk_def)
  have "\<exists>w' s'. checkTypedMember exTypes exEvaluator ''Proto'' ''Cand'' {} False 1 ''Proto'' ''x''
           ?final ?info False ''int'' exWalk exState = (Inr w', s')"
    by (simp add: model_defs example_defs)
  then obtain w' s' where run:
    "checkTypedMember exTypes exEvaluator ''Proto'' ''Cand'' {} False 1 ''Proto'' ''x''
           ?final ?info False ''int'' exWalk exState = (Inr w', s')"
    by blast
  note mismatch = final_agreement [where symb = ?final and srcSymbol = "instanceSymbol 3"
      and name = "''x''" and sub = "Some (DiagnosticAddendum [] [])" and w = exWalk
      and T = exTypes and ev = exEvaluator and destType = "''Proto''" and srcType = "''Cand''"
      and fl = "{}" and tr = False and rc = 1 and mroClass = "''Proto''" and info = ?info
      and fromMeta = False and t = "''int''", unfolded postM_def sink option.case]
  note match = final_agreement [where symb = "variableSymbol 1 False False"
      and srcSymbol = "instanceSymbol 3"
      and name = "''x''" and sub = "Some (DiagnosticAddendum [] [])" and w = exWalk
      and T = exTypes and ev = exEvaluator and destType = "''Proto''" and srcType = "''Cand''"
      and fl = "{}" and tr = False and rc = 1 and mroClass = "''Proto''" and info = ?info
      and fromMeta = False and t = "''int''"]
  have first: "checkFinal ''x'' ?final (instanceSymbol 3) (Some (DiagnosticAddendum [] [])) exWalk
       = (addMessage (finalMessage ''x'' ?final) (Some (DiagnosticAddendum [] [])),
          exWalk\<lparr>typesAreConsistent := False\<rparr>)"
    using mismatch differ by blast
  have second: "checkFinal ''x'' (variableSymbol 1 False False) (instanceSymbol 3)
        (Some (DiagnosticAddendum [] [])) exWalk = (Some (DiagnosticAddendum [] []), exWalk)"
    using match agree by blast
  have "(isFinalVariable ?final \<noteq> isFinalVariable (symbol ?info) \<longrightarrow> \<not> typesAreConsistent w')
      \<and> (\<exists>subDiag. diagAddendum w'
              = Some (DiagnosticAddendum (messages (DiagnosticAddendum [] []))
                        (childAddenda (DiagnosticAddendum [] []) @ [subDiag]))
            \<and> (if isFinalVariable ?final \<noteq> isFinalVariable (symbol ?info)
               then messages subDiag \<noteq> [] \<and> last (messages subDiag) = finalMessage ''x'' ?final
               else memberIsFinalInProtocol ''x'' \<notin> set (messages subDiag)
                    \<and> memberIsNotFinalInProtocol ''x'' \<notin> set (messages subDiag)))"
    using mismatch run by blast
  with differ' obtain subDiag where third: "\<not> typesAreConsistent w'"
    "diagAddendum w' = Some (DiagnosticAddendum [] [subDiag])"
    "last (messages subDiag) = finalMessage ''x'' ?final"
    by auto
  show ?thesis
    using differ named agree first second run third by blast
qed

subsection \<open>A member without a declared type\<close>

text \<open>
  Claim C10. When the candidate's member is found and \<open>getDeclaredTypeOfSymbol\<close> yields
  nothing for the protocol's symbol, the callback ends in the state that this one call
  left: no type is fetched, bound or compared, invariance and finality are not looked
  at. Its outcome is decided by the class-variable check alone: the locals are those
  before the member, with the name checked, unless the protocol's symbol is a class
  variable and the candidate's is not a class member; then the ``class variable'' message
  is appended to the sink and the comparison is marked inconsistent.
\<close>

theorem undeclared_member_only_class_var_check:
  "eligibleMember tr (name, symb) \<and> name \<notin> checkedSymbolSet w
   \<and> lookUpSrcMember T srcType tr name (srcClassTypeVarContext w) = (Some info, fromMeta, ctx)
   \<and> getDeclaredTypeOfSymbol ev symb s = (Inr None, s')
   \<longrightarrow> checkClassMember T ev destType srcType fl tr rc mroClass (name, symb) w s
       = (Inr (if isClassVar symb \<and> \<not> isClassMember (symbol info) then
                 w\<lparr>checkedSymbolSet := insert name (checkedSymbolSet w),
                   srcClassTypeVarContext := ctx,
                   diagAddendum := addMessage (protocolMemberClassVar name) (diagAddendum w),
                   typesAreConsistent := False\<rparr>
               else w\<lparr>checkedSymbolSet := insert name (checkedSymbolSet w),
                      srcClassTypeVarContext := ctx\<rparr>),
          s')"
  by (auto simp: checkClassMember_def eligibleMember_def checkClassVar_def Let_def bindM_def
        returnM_def)

theorem undeclared_member_only_class_var_check_witness:
  "eligibleMember False (''x'', variableSymbol 9 False True)
   \<and> ''x'' \<notin> checkedSymbolSet exWalk
   \<and> lookUpSrcMember exTypes ''Cand'' False ''x'' (srcClassTypeVarContext exWalk)
       = (Some \<lparr>symbol = instanceSymbol 3, classType = ''Cand''\<rparr>, False, 0)
   \<and> getDeclaredTypeOfSymbol exEvaluator (variableSymbol 9 False True) exState = (Inr None, exState)
   \<and> isClassVar (variableSymbol 9 False True) \<and> \<not> isClassMember (instanceSymbol 3)
   \<and> checkClassMember exTypes exEvaluator ''Proto'' ''Cand'' {} False 1 ''Proto''
        (''x'', variableSymbol 9 False True) exWalk exState
       = (Inr (exWalk\<lparr>checkedSymbolSet := insert ''x'' (checkedSymbolSet exWalk),
                 srcClassTypeVarContext := 0,
                 diagAddendum := addMessage (protocolMemberClassVar ''x'') (diagAddendum exWalk),
                 typesAreConsistent := False\<rparr>),
          exState)"
proof -
  have given: "eligibleMember False (''x'', variableSymbol 9 False True)"
    "''x'' \<notin> checkedSymbolSet exWalk"
    "lookUpSrcMember exTypes ''Cand'' False ''x'' (srcClassTypeVarContext exWalk)
       = (Some \<lparr>symbol = instanceSymbol 3, classType = ''Cand''\<rparr>, False, 0)"
    "getDeclaredTypeOfSymbol exEvaluator (variableSymbol 9 False True) exState = (Inr None, exState)"
    by (simp_all add: eligibleMember_def lookUpSrcMember_def returnM_def example_defs)
  have classVar: "isClassVar (variableSymbol 9 False True)" "\<not> isClassMember (instanceSymbol 3)"
    by (simp_all add: variableSymbol_def instanceSymbol_def)
  have "symbol \<lparr>symbol = instanceSymbol 3, classType = ''Cand''\<rparr> = instanceSymbol 3"
    by simp
  with classVar given
    undeclared_member_only_class_var_check [where tr = False and name = "''x''"
      and symb = "variableSymbol 9 False True" and w = exWalk and T = exTypes
      and srcType = "''Cand''" and info = "\<lparr>symbol = instanceSymbol 3, classType = ''Cand''\<rparr>"
      and fromMeta = False and ctx = 0 and ev = exEvaluator and s = exState and s' = exState
      and destType = "''Proto''" and fl = "{}" and rc = 1 and mroClass = "''Proto''"]
  have "checkClassMember exTypes exEvaluator ''Proto'' ''Cand'' {} False 1 ''Proto''
        (''x'', variableSymbol 9 False True) exWalk exState
       = (Inr (exWalk\<lparr>checkedSymbolSet := insert ''x'' (checkedSymbolSet exWalk),
                 srcClassTypeVarContext := 0,
                 diagAddendum := addMessage (protocolMemberClassVar ''x'') (diagAddendum exWalk),
                 typesAreConsistent := False\<rparr>),
          exState)"
    by simp
  with given classVar show ?thesis by blast
qed

subsection \<open>Variance of the member comparison\<close>




subsection \<open>Flags of the module comparison\<close>

lemma checkTypedModuleMember_canAssignType:
  assumes "\<forall>d s dg c r. g d s dg c Default r = canAssignType ev d s dg c Default r"
  shows "checkTypedModuleMember T (ev\<lparr>canAssignType := g\<rparr>) destType rc name memberSymbol t w
         = checkTypedModuleMember T ev destType rc name memberSymbol t w"
  by (simp add: checkTypedModuleMember_def Let_def assms cong: if_cong)

lemma checkTypedModuleMember_canAssignProperty:
  "checkTypedModuleMember T (ev\<lparr>canAssignProperty := p\<rparr>) destType rc name memberSymbol t w
   = checkTypedModuleMember T ev destType rc name memberSymbol t w"
  by (simp add: checkTypedModuleMember_def Let_def cong: if_cong)

lemma checkModuleMember_canAssignType:
  assumes "\<forall>d s dg c r. g d s dg c Default r = canAssignType ev d s dg c Default r"
  shows "checkModuleMember T (ev\<lparr>canAssignType := g\<rparr>) destType srcType rc
         = checkModuleMember T ev destType srcType rc"
  by (intro ext)
     (simp add: checkModuleMember_def Let_def checkTypedModuleMember_canAssignType [where g = g and ev = ev, OF assms]
        cong: if_cong option.case_cong)

lemma checkModuleMember_canAssignProperty:
  "checkModuleMember T (ev\<lparr>canAssignProperty := p\<rparr>) destType srcType rc
   = checkModuleMember T ev destType srcType rc"
  by (intro ext)
     (simp add: checkModuleMember_def Let_def checkTypedModuleMember_canAssignProperty
        cong: if_cong option.case_cong)

lemma checkModuleMroClass_canAssignType:
  assumes "\<forall>d s dg c r. g d s dg c Default r = canAssignType ev d s dg c Default r"
  shows "checkModuleMroClass T (ev\<lparr>canAssignType := g\<rparr>) destType srcType rc
         = checkModuleMroClass T ev destType srcType rc"
  by (intro ext)
     (simp add: checkModuleMroClass_def checkModuleMember_canAssignType [where g = g and ev = ev, OF assms] cong: if_cong)

lemma checkModuleMroClass_canAssignProperty:
  "checkModuleMroClass T (ev\<lparr>canAssignProperty := p\<rparr>) destType srcType rc
   = checkModuleMroClass T ev destType srcType rc"
  by (intro ext)
     (simp add: checkModuleMroClass_def checkModuleMember_canAssignProperty cong: if_cong)

lemma verifyTypeArguments_other_collaborators:
  "verifyTypeArguments T (ev\<lparr>canAssignType := g\<rparr>) = verifyTypeArguments T ev"
  "verifyTypeArguments T (ev\<lparr>canAssignProperty := p\<rparr>) = verifyTypeArguments T ev"
  by (intro ext, simp add: verifyTypeArguments_def Let_def cong: if_cong)+

text \<open>
  Claim C8. The module comparison consults \<open>canAssignType\<close> with the \<^verbatim>\<open>Default\<close> flags
  only, for every member: an evaluator whose \<open>canAssignType\<close> answers differently for
  other flags, \<open>EnforceInvariance\<close> among them, gives the same comparison. So a member
  whose first declaration is a mutable variable is not compared invariantly. And the
  comparison never consults \<open>canAssignProperty\<close>: it is the same whatever that
  collaborator is.
\<close>

theorem module_members_default_flags:
  "EnforceInvariance \<notin> Default
   \<and> ((\<forall>d s dg c r. g d s dg c Default r = canAssignType ev d s dg c Default r) \<longrightarrow>
        canAssignModuleToProtocol T (ev\<lparr>canAssignType := g\<rparr>) destType srcType diag tvc fl rc
          = canAssignModuleToProtocol T ev destType srcType diag tvc fl rc)
   \<and> canAssignModuleToProtocol T (ev\<lparr>canAssignProperty := p\<rparr>) destType srcType diag tvc fl rc
       = canAssignModuleToProtocol T ev destType srcType diag tvc fl rc"
proof (intro conjI impI)
  show "EnforceInvariance \<notin> Default" by (simp add: Default_def)
  show "canAssignModuleToProtocol T (ev\<lparr>canAssignType := g\<rparr>) destType srcType diag tvc fl rc
          = canAssignModuleToProtocol T ev destType srcType diag tvc fl rc"
    if "\<forall>d s dg c r. g d s dg c Default r = canAssignType ev d s dg c Default r"
    by (simp add: canAssignModuleToProtocol_def Let_def
          checkModuleMroClass_canAssignType [where g = g and ev = ev, OF that]
          verifyTypeArguments_other_collaborators cong: if_cong)
  show "canAssignModuleToProtocol T (ev\<lparr>canAssignProperty := p\<rparr>) destType srcType diag tvc fl rc
       = canAssignModuleToProtocol T ev destType srcType diag tvc fl rc"
    by (simp add: canAssignModuleToProtocol_def Let_def checkModuleMroClass_canAssignProperty
          verifyTypeArguments_other_collaborators cong: if_cong)
qed

theorem module_members_default_flags_witness:
  "(\<forall>d s dg c r. exDefaultAssign d s dg c Default r = canAssignType exEvaluator d s dg c Default r)
   \<and> isInvariant (variableSymbol 1 False False)
   \<and> (''x'', variableSymbol 1 False False) \<in> set (classFields exTypes ''Proto'')
   \<and> canAssignModuleToProtocol exTypes (exEvaluator\<lparr>canAssignType := exDefaultAssign\<rparr>) ''Proto''
        ''Mod'' (Some (DiagnosticAddendum [] [])) None {} 0
       = canAssignModuleToProtocol exTypes exEvaluator ''Proto'' ''Mod''
           (Some (DiagnosticAddendum [] [])) None {} 0
   \<and> canAssignModuleToProtocol exTypes (exEvaluator\<lparr>canAssignType := exDefaultAssign\<rparr>) ''Proto''
        ''Mod'' (Some (DiagnosticAddendum [] [])) None {} 0 exState
       = (Inr (False,
               Some (DiagnosticAddendum [protocolMemberMissing ''m'']
                 [DiagnosticAddendum [] [DiagnosticAddendum [] []]]),
               None),
          exState\<lparr>world := [{}]\<rparr>)"
proof -
  have same: "\<forall>d s dg c r. exDefaultAssign d s dg c Default r
                = canAssignType exEvaluator d s dg c Default r"
    by (simp add: exDefaultAssign_def)
  have mutable: "isInvariant (variableSymbol 1 False False)"
    "(''x'', variableSymbol 1 False False) \<in> set (classFields exTypes ''Proto'')"
    by (simp_all add: isInvariant_def variableSymbol_def exTypes_def)
  have independent:
    "canAssignModuleToProtocol exTypes (exEvaluator\<lparr>canAssignType := exDefaultAssign\<rparr>) ''Proto''
        ''Mod'' (Some (DiagnosticAddendum [] [])) None {} 0
       = canAssignModuleToProtocol exTypes exEvaluator ''Proto'' ''Mod''
           (Some (DiagnosticAddendum [] [])) None {} 0"
    using module_members_default_flags [where g = exDefaultAssign and ev = exEvaluator
        and T = exTypes and destType = "''Proto''" and srcType = "''Mod''"
        and diag = "Some (DiagnosticAddendum [] [])" and tvc = None and fl = "{}" and rc = 0]
      same
    by blast
  have run: "canAssignModuleToProtocol exTypes exEvaluator ''Proto'' ''Mod''
        (Some (DiagnosticAddendum [] [])) None {} 0 exState
       = (Inr (False,
               Some (DiagnosticAddendum [protocolMemberMissing ''m'']
                 [DiagnosticAddendum [] [DiagnosticAddendum [] []]]),
               None),
          exState\<lparr>world := [{}]\<rparr>)"
    by (simp add: model_defs example_defs)
  show ?thesis
    using same mutable independent run by simp
qed

subsection \<open>Every member is checked and every mismatch is reported\<close>

lemma withVerdict_simps [simp]:
  "typesAreConsistent (withVerdict b w) = (b \<and> typesAreConsistent w)"
  "checkedSymbolSet (withVerdict b w) = checkedSymbolSet w"
  "genericDestTypeVarContext (withVerdict b w) = genericDestTypeVarContext w"
  "diagAddendum (withVerdict b w) = diagAddendum w"
  by (simp_all add: withVerdict_def)

lemma withVerdict_class_simps [simp]:
  "srcClassTypeVarContext (withVerdict b w) = srcClassTypeVarContext w"
  "selfTypeVarContext (withVerdict b w) = selfTypeVarContext w"
  by (simp_all add: withVerdict_def)






























subsection \<open>The variance check of a protocol class against itself\<close>
















end
